theory Spec2Isabelle
  imports Main "HOL-Library.Word"
begin

section \<open>JavaScript values the code relies on\<close>

text \<open>
  The server is TypeScript on NodeJS.  Numbers that travel in packets and records
  (ids, limits, flags) are modelled as \<open>int\<close>; an optional property is an
  \<open>option\<close>.  An uncaught \<open>TypeError\<close> (a property read on \<open>null\<close> or
  \<open>undefined\<close>, a call of \<open>undefined\<close>) is a value of type \<open>error\<close>.
\<close>

datatype error = TypeError

text \<open>\<open>Array.prototype.indexOf\<close>: the first index holding the element, \<open>-1\<close> when none does.\<close>

fun indexOf :: "'a list \<Rightarrow> 'a \<Rightarrow> int" where
  "indexOf [] x = -1"
| "indexOf (y # ys) x =
     (if y = x then 0 else (let i = indexOf ys x in if i < 0 then -1 else i + 1))"

text \<open>
  \<open>xs.splice(start, 1)\<close>: a negative \<open>start\<close> counts from the end (clamped at \<open>0\<close>),
  a \<open>start\<close> beyond the end is clamped to the length; one element is deleted when
  there is one at that position.
\<close>

definition splice1 :: "int \<Rightarrow> 'a list \<Rightarrow> 'a list" where
  "splice1 start xs =
     (let n = int (length xs);
          s = (if start < 0 then max (n + start) 0 else min start n)
      in take (nat s) xs @ drop (nat s + 1) xs)"

text \<open>Decimal rendering of an integer, as \<open>'Room #' + this.id\<close> produces it.\<close>

definition digit_char :: "nat \<Rightarrow> char" where
  "digit_char d = ''0123456789'' ! d"

fun show_nat :: "nat \<Rightarrow> string" where
  "show_nat n = (if n < 10 then [digit_char n] else show_nat (n div 10) @ [digit_char (n mod 10)])"

definition show_int :: "int \<Rightarrow> string" where
  "show_int i = (if i < 0 then CHR ''-'' # show_nat (nat (- i)) else show_nat (nat i))"

text \<open>\<open>v ? v : d\<close> on an optional number: \<open>undefined\<close> and \<open>0\<close> are falsy.\<close>

definition num_or :: "int option \<Rightarrow> int \<Rightarrow> int" where
  "num_or v d = (case v of None \<Rightarrow> d | Some n \<Rightarrow> if n \<noteq> 0 then n else d)"

text \<open>\<open>v ? v : d\<close> on an optional string: \<open>undefined\<close> and the empty string are falsy.\<close>

definition str_or :: "string option \<Rightarrow> string \<Rightarrow> string" where
  "str_or v d = (case v of None \<Rightarrow> d | Some s \<Rightarrow> if s \<noteq> [] then s else d)"

definition truthy_num :: "int option \<Rightarrow> bool" where
  "truthy_num v = (case v of None \<Rightarrow> False | Some n \<Rightarrow> n \<noteq> 0)"

section \<open>The user account (class \<open>User\<close>)\<close>

record user =
  userId :: int
  userName :: string
  playerName :: string
  level :: int
  avatar :: int
  curExp :: int
  maxExp :: int
  rank :: int
  vipLevel :: int
  wins :: int
  kills :: int
  deaths :: int
  assists :: int

definition isVip :: "user \<Rightarrow> bool" where
  "isVip u = (vipLevel u \<noteq> 0)"

section \<open>The room (class \<open>Room\<close>)\<close>

text \<open>
  The room file is written against a \<open>User\<close> object that also carries its
  connection, \<open>user.socket\<close>.  The room compares users with \<open>===\<close>, which is
  object identity: \<open>ref\<close> is the identity of the object, so that two objects with
  the same contents are still two members, and \<open>===\<close> is equality of the records.
\<close>

record room_user = user +
  ref :: nat
  socket :: nat

type_synonym Channel = nat
type_synonym callback = nat

record IRoomOptions =
  roomName_opt :: "string option"
  gameModeId_opt :: "int option"
  mapId_opt :: "int option"
  winLimit_opt :: "int option"
  killLimit_opt :: "int option"
  startMoney_opt :: "int option"
  forceCamera_opt :: "int option"
  nextMapEnabled_opt :: "int option"
  changeTeams_opt :: "int option"
  enableBots_opt :: "int option"
  difficulty_opt :: "int option"
  respawnTime_opt :: "int option"
  teamBalance_opt :: "int option"
  weaponRestrictions_opt :: "int option"
  hltvEnabled_opt :: "int option"

record room =
  id_room :: int
  roomName :: string
  maxPlayers :: int
  gameModeId :: int
  mapId :: int
  winLimit :: int
  killLimit :: int
  startMoney :: int
  forceCamera :: int
  nextMapEnabled :: int
  changeTeams :: int
  enableBots :: int
  difficulty :: int
  respawnTime :: int
  teamBalance :: int
  weaponRestrictions :: int
  hltvEnabled :: int
  host :: room_user
  users :: "room_user list"
  emptyRoomCallback :: "callback option"
  parentChannel :: Channel

text \<open>
  What a room operation does to the outside: a packet written on a member's socket
  (\<open>user.socket.write\<close>), or the call of the empty-room callback with the room and
  its parent channel.  The sequence byte that \<open>user.socket.getSeq()\<close> puts in the
  packet header belongs to the socket class, which is not part of the room file.
\<close>

datatype room_packet = PlayerLeave int | SetHost room_user

datatype event = SocketWrite nat room_packet | EmptyRoomCall callback room Channel

definition getFreeSlots :: "room \<Rightarrow> int" where
  "getFreeSlots r =
     (let availableSlots = maxPlayers r - int (length (users r))
      in if availableSlots \<ge> 0 then availableSlots else 0)"

definition hasFreeSlots :: "room \<Rightarrow> bool" where
  "hasFreeSlots r = (getFreeSlots r \<noteq> 0)"

definition addUser :: "room_user \<Rightarrow> room \<Rightarrow> room" where
  "addUser u r = r\<lparr>users := users r @ [u]\<rparr>"

text \<open>
  The constructor.  \<open>options\<close> is an optional parameter that the body reads
  unconditionally, so a call without it throws.
\<close>

definition Room_constructor ::
  "int \<Rightarrow> room_user \<Rightarrow> Channel \<Rightarrow> callback option \<Rightarrow> IRoomOptions option \<Rightarrow> error + room" where
  "Room_constructor roomId h parent cb options =
     (case options of
        None \<Rightarrow> Inl TypeError
      | Some opts \<Rightarrow>
          Inr (addUser h
            \<lparr> id_room = roomId,
              roomName = str_or (roomName_opt opts) (''Room #'' @ show_int roomId),
              maxPlayers = (if truthy_num (enableBots_opt opts) then 16 else 32),
              gameModeId = num_or (gameModeId_opt opts) 0,
              mapId = num_or (mapId_opt opts) 1,
              winLimit = num_or (winLimit_opt opts) 10,
              killLimit = num_or (killLimit_opt opts) 150,
              startMoney = num_or (startMoney_opt opts) 16000,
              forceCamera = num_or (forceCamera_opt opts) 1,
              nextMapEnabled = num_or (nextMapEnabled_opt opts) 0,
              changeTeams = num_or (changeTeams_opt opts) 0,
              enableBots = num_or (enableBots_opt opts) 0,
              difficulty = num_or (difficulty_opt opts) 0,
              respawnTime = num_or (respawnTime_opt opts) 3,
              teamBalance = num_or (teamBalance_opt opts) 0,
              weaponRestrictions = num_or (weaponRestrictions_opt opts) 0,
              hltvEnabled = num_or (hltvEnabled_opt opts) 0,
              host = h,
              users = [],
              emptyRoomCallback = cb,
              parentChannel = parent \<rparr>))"

text \<open>\<open>sendRemovedUser\<close>: one \<open>playerLeave\<close> packet per current member, in list order.\<close>

definition sendRemovedUser :: "int \<Rightarrow> room \<Rightarrow> event list" where
  "sendRemovedUser uid r = map (\<lambda>u. SocketWrite (socket u) (PlayerLeave uid)) (users r)"

text \<open>\<open>updateHost\<close>: store the new host, then one \<open>setHost\<close> packet per current member.\<close>

definition updateHost :: "room_user \<Rightarrow> room \<Rightarrow> room \<times> event list" where
  "updateHost newHost r =
     (let r' = r\<lparr>host := newHost\<rparr>
      in (r', map (\<lambda>u. SocketWrite (socket u) (SetHost (host r'))) (users r')))"

definition findAndUpdateNewHost :: "room \<Rightarrow> bool \<times> room \<times> event list" where
  "findAndUpdateNewHost r =
     (case users r of
        [] \<Rightarrow> (False, r, [])
      | u0 # _ \<Rightarrow> (let (r', evs) = updateHost u0 r in (True, r', evs)))"

text \<open>
  The result of a removal: the error thrown, if any, the room as the call leaves it
  (a throw does not undo the \<open>splice\<close> before it) and the events in order.
\<close>

type_synonym outcome = "error option \<times> room \<times> event list"

definition onUserRemoved :: "int \<Rightarrow> room \<Rightarrow> outcome" where
  "onUserRemoved uid r =
     (if length (users r) = 0 then
        (case emptyRoomCallback r of
           None \<Rightarrow> (Some TypeError, r, [])
         | Some cb \<Rightarrow> (None, r, [EmptyRoomCall cb r (parentChannel r)]))
      else
        (let (found, r1, evs1) = findAndUpdateNewHost r
         in (None, r1, evs1 @ sendRemovedUser uid r1)))"

definition removeUser :: "room_user \<Rightarrow> room \<Rightarrow> outcome" where
  "removeUser targetUser r =
     (case find (\<lambda>u. u = targetUser) (users r) of
        None \<Rightarrow> (None, r, [])
      | Some u \<Rightarrow>
          (let uid = userId u
           in onUserRemoved uid (r\<lparr>users := splice1 (indexOf (users r) u) (users r)\<rparr>)))"

definition removeUserById :: "int \<Rightarrow> room \<Rightarrow> outcome" where
  "removeUserById uid r =
     (case find (\<lambda>u. userId u = uid) (users r) of
        None \<Rightarrow> (None, r, [])
      | Some u \<Rightarrow> onUserRemoved uid (r\<lparr>users := splice1 (indexOf (users r) u) (users r)\<rparr>))"

section \<open>The user service gateway (class \<open>User\<close>, \<open>validateCredentials\<close>)\<close>

text \<open>
  What \<open>await superagent...\<close> gives the caller: a response with its status and parsed
  body, or a throw (the request failed, or the HTTP library rejected the response).
\<close>

datatype 'a http_result = Response nat 'a | RequestError

text \<open>
  The user service as the master server sees it: the answer of the liveness pinger
  \<open>UserSvcPing.isAlive()\<close> and the outcome of each request.  The body of
  \<open>GET /users/...\<close> is a user record; of the body of \<open>POST /users/check\<close> the code
  reads the property \<open>userId\<close>, which is \<open>None\<close> when the body has none.
\<close>

record user_service =
  isAlive :: bool
  get_users :: "int \<Rightarrow> user http_result"
  get_users_byname :: "string \<Rightarrow> user http_result"
  post_users_check :: "string \<Rightarrow> string \<Rightarrow> int option http_result"

datatype svc_request = GetUser int | GetUserByName string | PostCheck string string

datatype inv_request = GetInventory int | GetCosmetics int | GetAllLoadouts int | GetBuyMenu int

text \<open>
  The inventory projections.  Their classes are not part of the sources; the code reads
  \<open>inventory.items\<close> and the eight cosmetic slots, and passes loadouts and buy menu on
  as they are.
\<close>

record UserInventory =
  items :: "int list"

record UserCosmetics =
  ctItem :: int
  terItem :: int
  headItem :: int
  gloveItem :: int
  backItem :: int
  stepsItem :: int
  cardItem :: int
  sprayItem :: int

type_synonym loadouts = "int list list"
type_synonym buymenu = "int list"

record inventory_service =
  getInventory :: "int \<Rightarrow> UserInventory option"
  getCosmetics :: "int \<Rightarrow> UserCosmetics option"
  getAllLoadouts :: "int \<Rightarrow> loadouts option"
  getBuyMenu :: "int \<Rightarrow> buymenu option"

text \<open>The packets the user manager builds, by what they carry.\<close>

datatype out_packet =
    UserStart int string string int
  | UserInfoFull int
  | InventoryCreate "int list"
  | FavoriteSetCosmetics int int int int int int int int
  | FavoriteSetLoadout loadouts
  | OptionSetBuyMenu buymenu
  | ChannelList
  | HostSetInventory int "int list"
  | HostSetLoadout int "loadouts option"
  | HostSetBuyMenu int "buymenu option"

text \<open>
  Modelled from the spec: the \<open>UserSession\<close> class is not part of the sources.  Its
  fields are those the handlers read and the data model lists for a Session.
\<close>

record UserSession =
  userId_sess :: int
  userName_sess :: string
  ipAddress :: string
  currentChannelIndex :: int
  currentChannelServerIndex :: int
  currentRoomId :: int

text \<open>
  What the user manager does to the outside, in order: a request to the user service,
  \<open>UserSvcPing.checkNow()\<close>, a read of the inventory service, a packet or a raw buffer
  sent on a connection (named by its uuid), \<open>session.update()\<close>,
  \<open>connection.setOwner\<close> and \<open>connection.end()\<close>.
\<close>

datatype effect =
    UserSvc svc_request
  | CheckNow
  | InvFetch inv_request
  | Send nat out_packet
  | SendBuffer nat "8 word list"
  | SessionUpdate UserSession
  | SetOwner nat int
  | End nat

text \<open>
  \<open>User.get\<close>.  \<open>userCache\<close> is the LRU cache of the module, here the map of the
  entries it would return now; \<open>userCache.set\<close> stores under the id the body carries.
  The result is the user (or \<open>null\<close>), the cache afterwards and the effects.
\<close>

definition User_get ::
  "user_service \<Rightarrow> (int \<rightharpoonup> user) \<Rightarrow> int \<Rightarrow> user option \<times> (int \<rightharpoonup> user) \<times> effect list" where
  "User_get svc userCache uid =
     (case userCache uid of
        Some session \<Rightarrow> (Some session, userCache, [])
      | None \<Rightarrow>
          if isAlive svc = False then (None, userCache, [])
          else
            (case get_users svc uid of
               Response status body \<Rightarrow>
                 if status = 200
                 then (Some body, userCache(userId body \<mapsto> body), [UserSvc (GetUser uid)])
                 else (None, userCache, [UserSvc (GetUser uid)])
             | RequestError \<Rightarrow> (None, userCache, [UserSvc (GetUser uid), CheckNow])))"

definition User_getByName :: "user_service \<Rightarrow> string \<Rightarrow> user option \<times> effect list" where
  "User_getByName svc name =
     (if isAlive svc = False then (None, [])
      else
        (case get_users_byname svc name of
           Response status body \<Rightarrow>
             if status = 200 then (Some body, [UserSvc (GetUserByName name)])
             else (None, [UserSvc (GetUserByName name)])
         | RequestError \<Rightarrow> (None, [UserSvc (GetUserByName name), CheckNow])))"

text \<open>
  \<open>validateCredentials\<close>: the value returned (\<open>None\<close> is \<open>undefined\<close>, when a 200
  body carries no \<open>userId\<close>) and the effects.
\<close>

definition validateCredentials ::
  "user_service \<Rightarrow> string \<Rightarrow> string \<Rightarrow> int option \<times> effect list" where
  "validateCredentials svc username password =
     (case post_users_check svc username password of
        Response status body \<Rightarrow>
          ((if status = 200 then body else Some 0), [UserSvc (PostCheck username password)])
      | RequestError \<Rightarrow> (Some 0, [UserSvc (PostCheck username password), CheckNow]))"

section \<open>The user manager (class \<open>UserManager\<close>)\<close>

text \<open>
  A connection: its uuid, its owner (the user id bound at login, if any) and the remote
  address.  The socket class is not part of the sources.
\<close>

record ExtendedSocket =
  uuid :: nat
  owner :: "int option"
  address :: string

record InLoginPacket =
  gameUsername :: string
  password :: string

text \<open>
  The state the handlers consult: the two services, the user cache, the session
  registry (\<open>UserSession.get\<close>) and the channel tree
  (\<open>ChannelManager.getChannel(channelIndex, channelServerIndex)\<close>, then
  \<open>channel.getRoomById\<close>).
\<close>

record world =
  userSvc :: user_service
  invSvc :: inventory_service
  userCache :: "int \<rightharpoonup> user"
  sessions :: "int \<rightharpoonup> UserSession"
  getChannel :: "int \<Rightarrow> int \<Rightarrow> (int \<rightharpoonup> room) option"

text \<open>
  Modelled from the spec: \<open>UserSession.get\<close> is not part of the sources.  The session
  registry maps a user id to its session; a connection without owner has none.
\<close>

definition UserSession_get :: "world \<Rightarrow> int option \<Rightarrow> UserSession option" where
  "UserSession_get w uid = (case uid of None \<Rightarrow> None | Some i \<Rightarrow> sessions w i)"

text \<open>
  Modelled from the spec: \<open>UserSession.isInRoom\<close> is not part of the sources.
  \<open>currentRoomId\<close> is 0 when the user is in no room.
\<close>

definition isInRoom :: "UserSession \<Rightarrow> bool" where
  "isInRoom s = (currentRoomId s \<noteq> 0)"

text \<open>
  Modelled from the spec: \<open>UserSession.create\<close> is not part of the sources.  Creating a
  session requires a successful \<open>validateCredentials\<close>, that is a user id other than 0.
\<close>

definition UserSession_create ::
  "user_service \<Rightarrow> string \<Rightarrow> string \<Rightarrow> UserSession option \<times> effect list" where
  "UserSession_create svc username pw =
     (case validateCredentials svc username pw of
        (Some uid, effs) \<Rightarrow>
          if uid \<noteq> 0
          then (Some \<lparr> userId_sess = uid, userName_sess = username, ipAddress = [],
                       currentChannelIndex = 0, currentChannelServerIndex = 0,
                       currentRoomId = 0 \<rparr>, effs)
          else (None, effs)
      | (None, effs) \<Rightarrow> (None, effs))"

definition getSessionCurRoom :: "world \<Rightarrow> UserSession \<Rightarrow> room option" where
  "getSessionCurRoom w session =
     (case getChannel w (currentChannelIndex session) (currentChannelServerIndex session) of
        None \<Rightarrow> None
      | Some channel \<Rightarrow>
          (case channel (currentRoomId session) of
             None \<Rightarrow> None
           | Some currentRoom \<Rightarrow> Some currentRoom))"

text \<open>The buffer sent between the inventory and the cosmetics on login, byte for byte.\<close>

definition unlockReply :: "8 word list" where
  "unlockReply =
     [ 0x55, 0x19, 0x5F, 0x05, 0x5A, 0x01, 0x4B, 0x00, 0x01, 0x00, 0x00, 0x00, 0x0B, 0x00, 0x00, 0x00,
      0x01, 0xE8, 0x03, 0x00, 0x00, 0x09, 0x00, 0x00, 0x00, 0x0C, 0x00, 0x00, 0x00, 0x01, 0xDC, 0x05,
      0x00, 0x00, 0x0A, 0x00, 0x00, 0x00, 0x0D, 0x00, 0x00, 0x00, 0x01, 0xE8, 0x03, 0x00, 0x00, 0x18,
      0x00, 0x00, 0x00, 0x0E, 0x00, 0x00, 0x00, 0x01, 0xDC, 0x05, 0x00, 0x00, 0x0B, 0x00, 0x00, 0x00,
      0x0F, 0x00, 0x00, 0x00, 0x01, 0x08, 0x07, 0x00, 0x00, 0x3C, 0x00, 0x00, 0x00, 0x10, 0x00, 0x00,
      0x00, 0x01, 0x80, 0xBB, 0x00, 0x00, 0x1F, 0x00, 0x00, 0x00, 0x11, 0x00, 0x00, 0x00, 0x01, 0xC0,
      0x5D, 0x00, 0x00, 0x11, 0x00, 0x00, 0x00, 0x12, 0x00, 0x00, 0x00, 0x01, 0x08, 0x07, 0x00, 0x00,
      0x1C, 0x00, 0x00, 0x00, 0x13, 0x00, 0x00, 0x00, 0x01, 0x4C, 0x1D, 0x00, 0x00, 0x3B, 0x00, 0x00,
      0x00, 0x14, 0x00, 0x00, 0x00, 0x01, 0x60, 0x61, 0x02, 0x00, 0x35, 0x00, 0x00, 0x00, 0x15, 0x00,
      0x00, 0x00, 0x01, 0x30, 0x75, 0x00, 0x00, 0x1A, 0x00, 0x00, 0x00, 0x16, 0x00, 0x00, 0x00, 0x01,
      0xA0, 0x0F, 0x00, 0x00, 0x19, 0x00, 0x00, 0x00, 0x17, 0x00, 0x00, 0x00, 0x01, 0x98, 0x3A, 0x00,
      0x00, 0x3F, 0x00, 0x00, 0x00, 0x18, 0x00, 0x00, 0x00, 0x01, 0xE0, 0x93, 0x04, 0x00, 0x14, 0x00,
      0x00, 0x00, 0x19, 0x00, 0x00, 0x00, 0x01, 0xA0, 0x0F, 0x00, 0x00, 0x07, 0x00, 0x00, 0x00, 0x1A,
      0x00, 0x00, 0x00, 0x01, 0x98, 0x3A, 0x00, 0x00, 0x3E, 0x00, 0x00, 0x00, 0x1B, 0x00, 0x00, 0x00,
      0x01, 0xE0, 0x93, 0x04, 0x00, 0x05, 0x00, 0x00, 0x00, 0x1C, 0x00, 0x00, 0x00, 0x01, 0x08, 0x07,
      0x00, 0x00, 0x2C, 0x00, 0x00, 0x00, 0x1D, 0x00, 0x00, 0x00, 0x01, 0x30, 0x75, 0x00, 0x00, 0x10,
      0x00, 0x00, 0x00, 0x1E, 0x00, 0x00, 0x00, 0x01, 0x88, 0x13, 0x00, 0x00, 0x0C, 0x00, 0x00, 0x00,
      0x1F, 0x00, 0x00, 0x00, 0x01, 0x20, 0x4E, 0x00, 0x00, 0x16, 0x00, 0x00, 0x00, 0x20, 0x00, 0x00,
      0x00, 0x01, 0x20, 0x4E, 0x00, 0x00, 0x34, 0x00, 0x00, 0x00, 0x43, 0x00, 0x00, 0x00, 0x01, 0x30,
      0x75, 0x00, 0x00, 0x46, 0x00, 0x00, 0x00, 0x57, 0x00, 0x00, 0x00, 0x01, 0x20, 0xA1, 0x07, 0x00,
      0x47, 0x00, 0x00, 0x00, 0x58, 0x00, 0x00, 0x00, 0x01, 0x20, 0xA1, 0x07, 0x00, 0x4D, 0x00, 0x00,
      0x00, 0x59, 0x00, 0x00, 0x00, 0x00, 0x90, 0x01, 0x00, 0x00, 0x55, 0x00, 0x00, 0x00, 0x81, 0x00,
      0x00, 0x00, 0x00, 0x70, 0x03, 0x00, 0x00, 0x30, 0x00, 0x00, 0x00, 0x90, 0x00, 0x00, 0x00, 0x01,
      0x30, 0x75, 0x00, 0x00, 0x1D, 0x00, 0x00, 0x00, 0x91, 0x00, 0x00, 0x00, 0x01, 0x60, 0xEA, 0x00,
      0x00, 0x20, 0x00, 0x00, 0x00, 0x92, 0x00, 0x00, 0x00, 0x01, 0x48, 0xE8, 0x01, 0x00, 0x2F, 0x00,
      0x00, 0x00, 0x93, 0x00, 0x00, 0x00, 0x01, 0x40, 0x0D, 0x03, 0x00, 0x6A, 0xBF, 0x00, 0x00, 0xA8,
      0x00, 0x00, 0x00, 0x00, 0x28, 0x00, 0x00, 0x00, 0x70, 0xBF, 0x00, 0x00, 0xA9, 0x00, 0x00, 0x00,
      0x00, 0x50, 0x00, 0x00, 0x00, 0x6F, 0xBF, 0x00, 0x00, 0xAA, 0x00, 0x00, 0x00, 0x00, 0x28, 0x00,
      0x00, 0x00, 0x6E, 0xBF, 0x00, 0x00, 0xAB, 0x00, 0x00, 0x00, 0x00, 0x50, 0x00, 0x00, 0x00, 0x69,
      0xBF, 0x00, 0x00, 0xAC, 0x00, 0x00, 0x00, 0x00, 0x28, 0x00, 0x00, 0x00, 0x72, 0xBF, 0x00, 0x00,
      0xAD, 0x00, 0x00, 0x00, 0x00, 0x50, 0x00, 0x00, 0x00, 0x6B, 0xBF, 0x00, 0x00, 0xAE, 0x00, 0x00,
      0x00, 0x00, 0x28, 0x00, 0x00, 0x00, 0x6D, 0xBF, 0x00, 0x00, 0xAF, 0x00, 0x00, 0x00, 0x00, 0x50,
      0x00, 0x00, 0x00, 0x4A, 0x00, 0x00, 0x00, 0xD7, 0x00, 0x00, 0x00, 0x01, 0x50, 0xC3, 0x00, 0x00,
      0x4B, 0x00, 0x00, 0x00, 0xD8, 0x00, 0x00, 0x00, 0x01, 0x00, 0x77, 0x01, 0x00, 0x4E, 0x00, 0x00,
      0x00, 0xE8, 0x00, 0x00, 0x00, 0x01, 0x70, 0x11, 0x01, 0x00, 0x52, 0x00, 0x00, 0x00, 0xE9, 0x00,
      0x00, 0x00, 0x01, 0xC0, 0xD4, 0x01, 0x00, 0x5B, 0x00, 0x00, 0x00, 0x06, 0x01, 0x00, 0x00, 0x01,
      0xF0, 0x49, 0x02, 0x00, 0x5F, 0x00, 0x00, 0x00, 0x19, 0x01, 0x00, 0x00, 0x01, 0x60, 0xEA, 0x00,
      0x00, 0x60, 0x00, 0x00, 0x00, 0x1A, 0x01, 0x00, 0x00, 0x01, 0xC0, 0xD4, 0x01, 0x00, 0x64, 0x00,
      0x00, 0x00, 0x38, 0x01, 0x00, 0x00, 0x01, 0xF0, 0x49, 0x02, 0x00, 0x68, 0x00, 0x00, 0x00, 0x5C,
      0x01, 0x00, 0x00, 0x01, 0x20, 0xA1, 0x07, 0x00, 0x6D, 0x00, 0x00, 0x00, 0x82, 0x01, 0x00, 0x00,
      0x01, 0xA0, 0x86, 0x01, 0x00, 0x6C, 0x00, 0x00, 0x00, 0x83, 0x01, 0x00, 0x00, 0x01, 0xA0, 0x86,
      0x01, 0x00, 0x6E, 0x00, 0x00, 0x00, 0x84, 0x01, 0x00, 0x00, 0x01, 0xA0, 0x86, 0x01, 0x00, 0x42,
      0x00, 0x00, 0x00, 0xFA, 0x01, 0x00, 0x00, 0x01, 0x30, 0x75, 0x00, 0x00, 0x43, 0x00, 0x00, 0x00,
      0xFB, 0x01, 0x00, 0x00, 0x01, 0x50, 0xC3, 0x00, 0x00, 0x78, 0x00, 0x00, 0x00, 0xFC, 0x01, 0x00,
      0x00, 0x01, 0x40, 0x0D, 0x03, 0x00, 0x79, 0x00, 0x00, 0x00, 0x07, 0x02, 0x00, 0x00, 0x00, 0xA0,
      0x00, 0x00, 0x00, 0x7C, 0x00, 0x00, 0x00, 0x08, 0x02, 0x00, 0x00, 0x00, 0x04, 0x01, 0x00, 0x00,
      0x7A, 0x00, 0x00, 0x00, 0x09, 0x02, 0x00, 0x00, 0x00, 0xE0, 0x01, 0x00, 0x00, 0x7B, 0x00, 0x00,
      0x00, 0x0A, 0x02, 0x00, 0x00, 0x00, 0x44, 0x02, 0x00, 0x00, 0x7D, 0x00, 0x00, 0x00, 0x58, 0x02,
      0x00, 0x00, 0x00, 0x44, 0x02, 0x00, 0x00, 0x7E, 0x00, 0x00, 0x00, 0x59, 0x02, 0x00, 0x00, 0x00,
      0x0C, 0x03, 0x00, 0x00, 0x81, 0x00, 0x00, 0x00, 0x91, 0x02, 0x00, 0x00, 0x01, 0xF0, 0x49, 0x02,
      0x00, 0x82, 0x00, 0x00, 0x00, 0x92, 0x02, 0x00, 0x00, 0x01, 0x00, 0x53, 0x07, 0x00, 0x83, 0x00,
      0x00, 0x00, 0x93, 0x02, 0x00, 0x00, 0x01, 0x60, 0x5B, 0x03, 0x00, 0x85, 0x00, 0x00, 0x00, 0x94,
      0x02, 0x00, 0x00, 0x00, 0x40, 0x01, 0x00, 0x00, 0x84, 0x00, 0x00, 0x00, 0x95, 0x02, 0x00, 0x00,
      0x00, 0x08, 0x02, 0x00, 0x00, 0x87, 0x00, 0x00, 0x00, 0x1F, 0x03, 0x00, 0x00, 0x00, 0x08, 0x02,
      0x00, 0x00, 0x8A, 0x00, 0x00, 0x00, 0xA4, 0x03, 0x00, 0x00, 0x01, 0xE0, 0x93, 0x04, 0x00, 0x8F,
      0x00, 0x00, 0x00, 0x44, 0x04, 0x00, 0x00, 0x01, 0x80, 0xA9, 0x03, 0x00, 0x90, 0x00, 0x00, 0x00,
      0x45, 0x04, 0x00, 0x00, 0x01, 0x40, 0x7E, 0x05, 0x00, 0x91, 0x00, 0x00, 0x00, 0x46, 0x04, 0x00,
      0x00, 0x01, 0x00, 0x53, 0x07, 0x00, 0x9B, 0x00, 0x00, 0x00, 0xA9, 0x04, 0x00, 0x00, 0x01, 0xF0,
      0x49, 0x02, 0x00, 0x9C, 0x00, 0x00, 0x00, 0xAA, 0x04, 0x00, 0x00, 0x01, 0x40, 0x0D, 0x03, 0x00,
      0x97, 0x00, 0x00, 0x00, 0xFC, 0x04, 0x00, 0x00, 0x01, 0x42, 0x99, 0x00, 0x00, 0x98, 0x00, 0x00,
      0x00, 0xFD, 0x04, 0x00, 0x00, 0x01, 0x86, 0x29, 0x02, 0x00, 0x99, 0x00, 0x00, 0x00, 0xFE, 0x04,
      0x00, 0x00, 0x01, 0x8C, 0xED, 0x02, 0x00, 0x10, 0x00, 0x03, 0x00, 0x00, 0x00, 0x10, 0x00, 0x00,
      0x00, 0x03, 0x00, 0x00, 0x00, 0x00, 0x00, 0x00, 0x00, 0x00, 0x00, 0x42, 0x00, 0x00, 0x00, 0x43,
      0x00, 0x00, 0x00, 0x06, 0x00, 0x00, 0x00, 0x00, 0x00, 0x00, 0x00, 0x00, 0x00, 0x0E, 0x00, 0x00,
      0x00, 0x14, 0x00, 0x00, 0x00, 0x03, 0x00, 0x00, 0x00, 0x00, 0x00, 0x00, 0x00, 0x00, 0x00, 0x0F,
      0x00, 0x00, 0x00, 0x0A, 0x00, 0x00, 0x00, 0x04, 0x00, 0x00, 0x00, 0x00, 0x00, 0x00, 0x00, 0x00,
      0x00, 0x10, 0x00, 0x00, 0x00, 0x16, 0x00, 0x00, 0x00, 0x07, 0x00, 0x00, 0x00, 0x00, 0x00, 0x00,
      0x00, 0x00, 0x00, 0x10, 0x00, 0x00, 0x00, 0x0C, 0x00, 0x00, 0x00, 0x07, 0x00, 0x00, 0x00, 0x00,
      0x00, 0x00, 0x00, 0x00, 0x00, 0x11, 0x00, 0x00, 0x00, 0x1C, 0x00, 0x00, 0x00, 0x05, 0x00, 0x00,
      0x00, 0x00, 0x00, 0x00, 0x00, 0x00, 0x00, 0x11, 0x00, 0x00, 0x00, 0x35, 0x00, 0x00, 0x00, 0x01,
      0x00, 0x00, 0x00, 0x00, 0x00, 0x00, 0x00, 0x00, 0x00, 0x12, 0x00, 0x00, 0x00, 0x34, 0x00, 0x00,
      0x00, 0x01, 0x00, 0x00, 0x00, 0x00, 0x00, 0x00, 0x00, 0x00, 0x00, 0x13, 0x00, 0x00, 0x00, 0x4D,
      0x00, 0x00, 0x00, 0x02, 0x00, 0x00, 0x00, 0x00, 0x00, 0x00, 0x00, 0x00, 0x00, 0x13, 0x00, 0x00,
      0x00, 0x05, 0x00, 0x00, 0x00, 0x02, 0x00, 0x00, 0x00, 0x00, 0x00, 0x00, 0x00, 0x00, 0x00, 0x14,
      0x00, 0x00, 0x00, 0x07, 0x00, 0x00, 0x00, 0x08, 0x00, 0x00, 0x00, 0x00, 0x00, 0x00, 0x00, 0x00,
      0x00, 0x14, 0x00, 0x00, 0x00, 0x3E, 0x00, 0x00, 0x00, 0x08, 0x00, 0x00, 0x00, 0x00, 0x00, 0x00,
      0x00, 0x00, 0x00, 0x15, 0x00, 0x00, 0x00, 0x11, 0x00, 0x00, 0x00, 0x00, 0x00, 0x00, 0x00, 0x00,
      0x00, 0x00, 0x00, 0x00, 0x00, 0x1A, 0x00, 0x00, 0x00, 0x3F, 0x00, 0x00, 0x00, 0x1A, 0x00, 0x00,
      0x00, 0x00, 0x00, 0x00, 0x00, 0x00, 0x00, 0x1A, 0x00, 0x00, 0x00, 0x19, 0x00, 0x00, 0x00, 0x1A,
      0x00, 0x00, 0x00, 0x00, 0x00, 0x00, 0x00, 0x00, 0x00, 0x19, 0x00, 0x01, 0x00, 0x00, 0x00, 0x02,
      0x00, 0x00, 0x00, 0x03, 0x00, 0x00, 0x00, 0x05, 0x00, 0x00, 0x00, 0x06, 0x00, 0x00, 0x00, 0x07,
      0x00, 0x00, 0x00, 0x09, 0x00, 0x00, 0x00, 0x0A, 0x00, 0x00, 0x00, 0x0B, 0x00, 0x00, 0x00, 0x0D,
      0x00, 0x00, 0x00, 0x0E, 0x00, 0x00, 0x00, 0x0F, 0x00, 0x00, 0x00, 0x10, 0x00, 0x00, 0x00, 0x11,
      0x00, 0x00, 0x00, 0x12, 0x00, 0x00, 0x00, 0x13, 0x00, 0x00, 0x00, 0x14, 0x00, 0x00, 0x00, 0x15,
      0x00, 0x00, 0x00, 0x18, 0x00, 0x00, 0x00, 0x19, 0x00, 0x00, 0x00, 0x1A, 0x00, 0x00, 0x00, 0x1C,
      0x00, 0x00, 0x00, 0x6C, 0xBF, 0x00, 0x00, 0x71, 0xBF, 0x00, 0x00, 0x42, 0x00, 0x00, 0x00, 0x94,
      0x01, 0x00, 0x00 ]"

text \<open>
  An \<open>async\<close> function that is called without \<open>await\<close> runs up to its first
  \<open>await\<close> inside the call; the rest runs later, once the awaited promise has settled
  and the caller's synchronous code is done.  Such a call is modelled by two effect
  lists: what happens inside the call, and what happens on resumption.
\<close>

type_synonym task = "effect list \<times> effect list"

text \<open>
  \<open>sendUserInfoTo\<close>: \<open>UserStart\<close> is sent inside the call; the full user update is
  sent once \<open>OutUserInfoPacket.fullUserUpdate\<close> has resolved.
\<close>

definition sendUserInfoTo :: "int \<Rightarrow> string \<Rightarrow> string \<Rightarrow> ExtendedSocket \<Rightarrow> int \<Rightarrow> task" where
  "sendUserInfoTo uid uname pname conn holepunchPort =
     ([Send (uuid conn) (UserStart uid uname pname holepunchPort)],
      [Send (uuid conn) (UserInfoFull uid)])"

text \<open>
  \<open>sendInventory\<close>: the four reads are started inside the call; on resumption nothing
  is sent if any of them came back \<open>null\<close>, otherwise the five buffers go out in order.
\<close>

definition sendInventory :: "inventory_service \<Rightarrow> int \<Rightarrow> ExtendedSocket \<Rightarrow> task" where
  "sendInventory isvc uid conn =
     ([InvFetch (GetInventory uid), InvFetch (GetCosmetics uid),
       InvFetch (GetAllLoadouts uid), InvFetch (GetBuyMenu uid)],
      (case (getInventory isvc uid, getCosmetics isvc uid, getAllLoadouts isvc uid,
             getBuyMenu isvc uid) of
         (Some inventory, Some cosmetics, Some lo, Some buyMenu) \<Rightarrow>
           [Send (uuid conn) (InventoryCreate (items inventory)),
            SendBuffer (uuid conn) unlockReply,
            Send (uuid conn)
              (FavoriteSetCosmetics (ctItem cosmetics) (terItem cosmetics)
                 (headItem cosmetics) (gloveItem cosmetics) (backItem cosmetics)
                 (stepsItem cosmetics) (cardItem cosmetics) (sprayItem cosmetics)),
            Send (uuid conn) (FavoriteSetLoadout lo),
            Send (uuid conn) (OptionSetBuyMenu buyMenu)]
       | _ \<Rightarrow> []))"

text \<open>
  Modelled from the spec: \<open>ChannelManager.sendChannelListTo\<close> is not part of the
  sources.  It sends the channel list on the connection.
\<close>

definition sendChannelListTo :: "ExtendedSocket \<Rightarrow> effect list" where
  "sendChannelListTo conn = [Send (uuid conn) ChannelList]"

text \<open>
  \<open>onLoginPacket\<close>.  The three sends at its end are not awaited: their first parts run
  in program order, and the two resumptions run afterwards, in the order in which their
  promises settle (\<open>infoFirst\<close>: the user update resumes before the inventory).  The
  result is the value returned, the user cache afterwards, and all effects in order.
\<close>

definition onLoginPacket ::
  "world \<Rightarrow> InLoginPacket \<Rightarrow> ExtendedSocket \<Rightarrow> int \<Rightarrow> bool \<Rightarrow>
   bool \<times> (int \<rightharpoonup> user) \<times> effect list" where
  "onLoginPacket w loginPacket connection holepunchPort infoFirst =
     (case UserSession_create (userSvc w) (gameUsername loginPacket) (password loginPacket) of
        (None, effs0) \<Rightarrow> (False, userCache w, effs0 @ [End (uuid connection)])
      | (Some created, effs0) \<Rightarrow>
          (let session = created\<lparr>ipAddress := address connection\<rparr>;
               effs1 = [SessionUpdate session, SetOwner (uuid connection) (userId_sess session)]
           in case User_get (userSvc w) (userCache w) (userId_sess session) of
                (None, cache', effs2) \<Rightarrow>
                  (False, cache', effs0 @ effs1 @ effs2 @ [End (uuid connection)])
              | (Some u, cache', effs2) \<Rightarrow>
                  (let (info_now, info_later) =
                         sendUserInfoTo (userId_sess session) (userName u) (playerName u)
                           connection holepunchPort;
                       (inv_now, inv_later) =
                         sendInventory (invSvc w) (userId_sess session) connection;
                       chan = sendChannelListTo connection
                   in (True, cache',
                       effs0 @ effs1 @ effs2 @ info_now @ inv_now @ chan @
                       (if infoFirst then info_later @ inv_later
                        else inv_later @ info_later)))))"

text \<open>
  \<open>sendUserInventoryTo\<close>: reads the inventory of \<open>hostUserId\<close>; \<open>inventory.items\<close>
  throws when the read came back \<open>null\<close>.
\<close>

definition sendUserInventoryTo ::
  "inventory_service \<Rightarrow> int \<Rightarrow> ExtendedSocket \<Rightarrow> int \<Rightarrow> error option \<times> effect list" where
  "sendUserInventoryTo isvc hostUserId hostConn targetUserId =
     (case getInventory isvc hostUserId of
        None \<Rightarrow> (Some TypeError, [InvFetch (GetInventory hostUserId)])
      | Some inventory \<Rightarrow>
          (None, [InvFetch (GetInventory hostUserId),
                  Send (uuid hostConn) (HostSetInventory targetUserId (items inventory))]))"

text \<open>
  Modelled from the spec: \<open>OutHostPacket.setLoadout\<close> and \<open>OutHostPacket.setBuyMenu\<close>
  are not part of the sources.  Each fetches the target's projection from the inventory
  service and builds the packet from it.
\<close>

definition sendUserLoadoutTo :: "inventory_service \<Rightarrow> ExtendedSocket \<Rightarrow> int \<Rightarrow> effect list" where
  "sendUserLoadoutTo isvc hostConn targetUserId =
     [InvFetch (GetAllLoadouts targetUserId),
      Send (uuid hostConn) (HostSetLoadout targetUserId (getAllLoadouts isvc targetUserId))]"

definition sendUserBuyMenuTo :: "inventory_service \<Rightarrow> ExtendedSocket \<Rightarrow> int \<Rightarrow> effect list" where
  "sendUserBuyMenuTo isvc hostConn targetUserId =
     [InvFetch (GetBuyMenu targetUserId),
      Send (uuid hostConn) (HostSetBuyMenu targetUserId (getBuyMenu isvc targetUserId))]"

text \<open>
  The three host handlers.  The argument \<open>targetId\<close> is the \<open>userId\<close> field of the
  decoded packet.  When the requester's room cannot be found, the log line reads
  \<open>currentRoom.id\<close> of \<open>null\<close> and the handler throws instead of returning.  The
  handlers are written against a room that keeps its name under \<open>settings\<close>; they
  read it in log lines only, and of the room they use the host alone.
\<close>

definition onHostSetUserInventory ::
  "world \<Rightarrow> int \<Rightarrow> ExtendedSocket \<Rightarrow> (error + bool) \<times> effect list" where
  "onHostSetUserInventory w targetId userConn =
     (let requesterId = owner userConn;
          requesterSession = UserSession_get w requesterId;
          targetSession = UserSession_get w (Some targetId)
      in case requesterSession of
           None \<Rightarrow> (Inr False, [])
         | Some rs \<Rightarrow>
             if isInRoom rs = False then (Inr False, [])
             else
               (case targetSession of
                  None \<Rightarrow> (Inr False, [])
                | Some ts \<Rightarrow>
                    (case getSessionCurRoom w rs of
                       None \<Rightarrow> (Inl TypeError, [])
                     | Some currentRoom \<Rightarrow>
                         if Some (userId (host currentRoom)) \<noteq> requesterId
                         then (Inr False, [])
                         else
                           (case sendUserInventoryTo (invSvc w) (userId_sess rs) userConn
                                   (userId_sess ts) of
                              (Some e, effs) \<Rightarrow> (Inl e, effs)
                            | (None, effs) \<Rightarrow> (Inr True, effs)))))"

definition onHostSetUserLoadout ::
  "world \<Rightarrow> int \<Rightarrow> ExtendedSocket \<Rightarrow> (error + bool) \<times> effect list" where
  "onHostSetUserLoadout w targetId sourceConn =
     (let requesterId = owner sourceConn;
          requesterSession = UserSession_get w requesterId;
          targetSession = UserSession_get w (Some targetId)
      in case requesterSession of
           None \<Rightarrow> (Inr False, [])
         | Some rs \<Rightarrow>
             if isInRoom rs = False then (Inr False, [])
             else
               (case targetSession of
                  None \<Rightarrow> (Inr False, [])
                | Some ts \<Rightarrow>
                    (case getSessionCurRoom w rs of
                       None \<Rightarrow> (Inl TypeError, [])
                     | Some currentRoom \<Rightarrow>
                         if userId (host currentRoom) \<noteq> userId_sess rs
                         then (Inr False, [])
                         else (Inr True,
                               sendUserLoadoutTo (invSvc w) sourceConn (userId_sess ts)))))"

definition onHostSetUserBuyMenu ::
  "world \<Rightarrow> int \<Rightarrow> ExtendedSocket \<Rightarrow> (error + bool) \<times> effect list" where
  "onHostSetUserBuyMenu w targetId sourceConn =
     (let requesterId = owner sourceConn;
          requesterSession = UserSession_get w requesterId;
          targetSession = UserSession_get w (Some targetId)
      in case requesterSession of
           None \<Rightarrow> (Inr False, [])
         | Some rs \<Rightarrow>
             if isInRoom rs = False then (Inr False, [])
             else
               (case targetSession of
                  None \<Rightarrow> (Inr False, [])
                | Some ts \<Rightarrow>
                    (case getSessionCurRoom w rs of
                       None \<Rightarrow> (Inl TypeError, [])
                     | Some currentRoom \<Rightarrow>
                         if Some (userId (host currentRoom)) \<noteq> requesterId
                         then (Inr False, [])
                         else (Inr True,
                               sendUserBuyMenuTo (invSvc w) sourceConn (userId_sess ts)))))"

section \<open>Properties and sample data used in the statements\<close>

text \<open>
  How the constructor treats one numeric option: unspecified or zero gives the default,
  any other value is taken as given.
\<close>

definition option_applied :: "int option \<Rightarrow> int \<Rightarrow> int \<Rightarrow> bool" where
  "option_applied given dflt actual =
     (case given of
        None \<Rightarrow> actual = dflt
      | Some v \<Rightarrow> if v = 0 then actual = dflt else actual = v)"

text \<open>The slot bound of a room.\<close>

definition slot_bound :: "room \<Rightarrow> bool" where
  "slot_bound r = (0 \<le> int (length (users r)) \<and> int (length (users r)) \<le> maxPlayers r)"

text \<open>Sample users and rooms for the concrete instances.\<close>

definition member :: "int \<Rightarrow> nat \<Rightarrow> room_user" where
  "member uid s =
     \<lparr> userId = uid, userName = ''user'', playerName = ''player'', level = 1, avatar = 0,
       curExp = 0, maxExp = 1000, rank = 0, vipLevel = 0, wins = 0, kills = 0, deaths = 0,
       assists = 0, ref = s, socket = s \<rparr>"

definition alice :: room_user where "alice = member 1 101"

definition bob :: room_user where "bob = member 2 102"

definition carol :: room_user where "carol = member 3 103"

definition no_options :: IRoomOptions where
  "no_options =
     \<lparr> roomName_opt = None, gameModeId_opt = None, mapId_opt = None, winLimit_opt = None,
       killLimit_opt = None, startMoney_opt = None, forceCamera_opt = None,
       nextMapEnabled_opt = None, changeTeams_opt = None, enableBots_opt = None,
       difficulty_opt = None, respawnTime_opt = None, teamBalance_opt = None,
       weaponRestrictions_opt = None, hltvEnabled_opt = None \<rparr>"

definition room_of_alice :: room where
  "room_of_alice = projr (Room_constructor 1 alice 7 (Some 9) (Some no_options))"

definition room_of_two :: room where
  "room_of_two = addUser bob room_of_alice"

text \<open>The room Alice creates when no empty-room callback is passed to the constructor.\<close>

definition room_without_callback :: room where
  "room_without_callback = projr (Room_constructor 1 alice 7 None (Some no_options))"

text \<open>
  The outcome of a removal that leaves the room non-empty, as far as the host is
  concerned: the member at index 0 is host and every remaining member is told so.
\<close>

definition host_elected :: "room \<Rightarrow> room_user \<Rightarrow> outcome \<Rightarrow> bool" where
  "host_elected r t out =
     (case out of
        (err, r', evs) \<Rightarrow>
          err = None \<and> users r' = remove1 t (users r) \<and> host r' = users r' ! 0 \<and>
          (\<forall>u \<in> set (users r'). SocketWrite (socket u) (SetHost (users r' ! 0)) \<in> set evs) \<and>
          (host r = users r ! 0 \<and> t \<noteq> host r \<longrightarrow> host r' = host r))"

text \<open>
  The outcome of a removal that leaves the room non-empty, as far as \<open>playerLeave\<close> is
  concerned: every remaining member is told, and the callback is not invoked.
\<close>

definition leave_broadcast :: "room \<Rightarrow> room_user \<Rightarrow> outcome \<Rightarrow> bool" where
  "leave_broadcast r t out =
     (case out of
        (err, r', evs) \<Rightarrow>
          err = None \<and> users r' = remove1 t (users r) \<and>
          (\<forall>u \<in> set (users r'). SocketWrite (socket u) (PlayerLeave (userId t)) \<in> set evs) \<and>
          (\<forall>e \<in> set evs. case e of EmptyRoomCall c x p \<Rightarrow> False | SocketWrite s p \<Rightarrow> True))"

text \<open>The inventory reads an effect list contains, in order.\<close>

fun fetches :: "effect list \<Rightarrow> inv_request list" where
  "fetches [] = []"
| "fetches (InvFetch q # es) = q # fetches es"
| "fetches (e # es) = fetches es"

text \<open>The effects that put bytes on the connection with uuid \<open>c\<close>, in order.\<close>

fun on_wire :: "nat \<Rightarrow> effect \<Rightarrow> bool" where
  "on_wire c (Send c' p) = (c' = c)"
| "on_wire c (SendBuffer c' b) = (c' = c)"
| "on_wire c e = False"

definition sent_on :: "nat \<Rightarrow> effect list \<Rightarrow> effect list" where
  "sent_on c effs = filter (on_wire c) effs"

text \<open>
  The checks a host handler makes before it reads the inventory service: the requester
  has a session, is in a room, the target has a session, the requester's room is found
  and its host is the requester.  \<open>Host.SetLoadout\<close> compares the host with the id in
  the requester's session (\<open>by_session\<close>), the two others with the connection's owner.
\<close>

definition host_chain :: "world \<Rightarrow> ExtendedSocket \<Rightarrow> int \<Rightarrow> bool \<Rightarrow> bool" where
  "host_chain w conn targetId by_session =
     (case UserSession_get w (owner conn) of
        None \<Rightarrow> False
      | Some rs \<Rightarrow>
          isInRoom rs \<and> UserSession_get w (Some targetId) \<noteq> None \<and>
          (case getSessionCurRoom w rs of
             None \<Rightarrow> False
           | Some currentRoom \<Rightarrow>
               Some (userId (host currentRoom)) =
                 (if by_session then Some (userId_sess rs) else owner conn)))"

text \<open>The requester is in a room by its session, but that room is not in the channel tree.\<close>

definition room_lost :: "world \<Rightarrow> ExtendedSocket \<Rightarrow> int \<Rightarrow> bool" where
  "room_lost w conn targetId =
     (case UserSession_get w (owner conn) of
        None \<Rightarrow> False
      | Some rs \<Rightarrow>
          isInRoom rs \<and> UserSession_get w (Some targetId) \<noteq> None \<and>
          getSessionCurRoom w rs = None)"

text \<open>
  What holds of the outcome of a host handler: the inventory service is read exactly
  when the checks pass; when they do not, nothing is read or sent, and the handler
  returns \<open>false\<close> unless the room was lost.
\<close>

definition guarded :: "world \<Rightarrow> ExtendedSocket \<Rightarrow> int \<Rightarrow> bool \<Rightarrow> (error + bool) \<times> effect list \<Rightarrow> bool" where
  "guarded w conn targetId by_session out =
     ((fetches (snd out) \<noteq> []) = host_chain w conn targetId by_session \<and>
      (\<not> host_chain w conn targetId by_session \<longrightarrow>
         snd out = [] \<and> (\<not> room_lost w conn targetId \<longrightarrow> fst out = Inr False)))"

text \<open>Sample services, sessions and connections for the concrete instances.\<close>

definition user42 :: user where
  "user42 =
     \<lparr> userId = 42, userName = ''alice'', playerName = ''playerAlice'', level = 1,
       avatar = 0, curExp = 0, maxExp = 1000, rank = 0, vipLevel = 0, wins = 0, kills = 0,
       deaths = 0, assists = 0 \<rparr>"

definition svc_up :: user_service where
  "svc_up =
     \<lparr> isAlive = True,
       get_users = (\<lambda>i. if i = 42 then Response 200 user42 else RequestError),
       get_users_byname = (\<lambda>n. if n = ''alice'' then Response 200 user42 else RequestError),
       post_users_check =
         (\<lambda>n p. if n = ''alice'' \<and> p = ''pw'' then Response 200 (Some 42)
                 else if n = ''alice'' then Response 401 None else RequestError) \<rparr>"

definition svc_down :: user_service where
  "svc_down = svc_up\<lparr>isAlive := False\<rparr>"

definition inv_all :: inventory_service where
  "inv_all =
     \<lparr> getInventory = (\<lambda>i. Some \<lparr>items = [10 * i]\<rparr>),
       getCosmetics = (\<lambda>i. Some \<lparr>ctItem = 1, terItem = 2, headItem = 3, gloveItem = 4,
                                 backItem = 5, stepsItem = 6, cardItem = 7, sprayItem = 8\<rparr>),
       getAllLoadouts = (\<lambda>i. Some [[i, 5]]),
       getBuyMenu = (\<lambda>i. Some [i, 9]) \<rparr>"

definition inv_no_buymenu :: inventory_service where
  "inv_no_buymenu = inv_all\<lparr>getBuyMenu := (\<lambda>i. None)\<rparr>"

definition session_of :: "int \<Rightarrow> int \<Rightarrow> UserSession" where
  "session_of uid rid =
     \<lparr> userId_sess = uid, userName_sess = ''name'', ipAddress = ''10.0.0.1'',
       currentChannelIndex = 0, currentChannelServerIndex = 0, currentRoomId = rid \<rparr>"

definition lobby :: world where
  "lobby =
     \<lparr> userSvc = svc_up, invSvc = inv_all, userCache = Map.empty,
       sessions = [1 \<mapsto> session_of 1 5, 2 \<mapsto> session_of 2 5, 3 \<mapsto> session_of 3 0],
       getChannel = (\<lambda>c s. if c = 0 \<and> s = 0 then Some [5 \<mapsto> room_of_two] else None) \<rparr>"

definition conn_of :: "nat \<Rightarrow> int option \<Rightarrow> ExtendedSocket" where
  "conn_of c o_id = \<lparr> uuid = c, owner = o_id, address = ''10.0.0.1'' \<rparr>"

definition login_alice :: InLoginPacket where
  "login_alice = \<lparr> gameUsername = ''alice'', password = ''pw'' \<rparr>"

text \<open>The inventory as it goes out on login: five buffers in this order.\<close>

definition inventory_frames ::
  "nat \<Rightarrow> UserInventory \<Rightarrow> UserCosmetics \<Rightarrow> loadouts \<Rightarrow> buymenu \<Rightarrow> effect list" where
  "inventory_frames c i cos l b =
     [Send c (InventoryCreate (items i)),
      SendBuffer c unlockReply,
      Send c (FavoriteSetCosmetics (ctItem cos) (terItem cos) (headItem cos) (gloveItem cos)
                (backItem cos) (stepsItem cos) (cardItem cos) (sprayItem cos)),
      Send c (FavoriteSetLoadout l),
      Send c (OptionSetBuyMenu b)]"

text \<open>
  What is sent on login besides the inventory: \<open>UserStart\<close>, the full user update and
  the channel list, each once.
\<close>

definition around_inventory :: "nat \<Rightarrow> int \<Rightarrow> user \<Rightarrow> int \<Rightarrow> effect list \<Rightarrow> bool" where
  "around_inventory c uid u port xs =
     (length xs = 3 \<and>
      set xs = {Send c (UserStart uid (userName u) (playerName u) port),
                Send c (UserInfoFull uid), Send c ChannelList})"

text \<open>The outcome of a successful login, as far as the connection sees it.\<close>

definition login_outcome ::
  "world \<Rightarrow> int \<Rightarrow> user \<Rightarrow> ExtendedSocket \<Rightarrow> int \<Rightarrow> bool \<times> (int \<rightharpoonup> user) \<times> effect list \<Rightarrow> bool" where
  "login_outcome w uid u conn port out =
     (case out of
        (ok, cache, effs) \<Rightarrow>
          ok \<and>
          (\<exists>rest. sent_on (uuid conn) effs =
                    Send (uuid conn) (UserStart uid (userName u) (playerName u) port) # rest) \<and>
          (\<forall>i c l b.
              getInventory (invSvc w) uid = Some i \<and> getCosmetics (invSvc w) uid = Some c \<and>
              getAllLoadouts (invSvc w) uid = Some l \<and> getBuyMenu (invSvc w) uid = Some b \<longrightarrow>
              (\<exists>pre post.
                  sent_on (uuid conn) effs = pre @ inventory_frames (uuid conn) i c l b @ post \<and>
                  around_inventory (uuid conn) uid u port (pre @ post))) \<and>
          (getInventory (invSvc w) uid = None \<or> getCosmetics (invSvc w) uid = None \<or>
           getAllLoadouts (invSvc w) uid = None \<or> getBuyMenu (invSvc w) uid = None \<longrightarrow>
             around_inventory (uuid conn) uid u port (sent_on (uuid conn) effs)))"

section \<open>Room: removal, host election and the slot bound\<close>

lemma find_eq_target: "find (\<lambda>u. u = t) xs = (if t \<in> set xs then Some t else None)"
  by (induction xs) auto

lemma indexOf_nonneg_iff: "0 \<le> indexOf xs x \<longleftrightarrow> x \<in> set xs"
  by (induction xs) (auto simp: Let_def)

lemma indexOf_ge: "- 1 \<le> indexOf xs x"
  by (induction xs) (auto simp: Let_def)

lemma indexOf_less: "indexOf xs x < int (length xs)"
  by (induction xs) (auto simp: Let_def)

lemma splice1_Cons_Suc:
  "0 \<le> i \<Longrightarrow> splice1 (i + 1) (y # ys) = y # splice1 i ys"
  by (auto simp: splice1_def Let_def min_def nat_add_distrib)

lemma splice1_zero: "splice1 0 (y # ys) = ys"
  by (simp add: splice1_def)

lemma splice1_indexOf: "x \<in> set xs \<Longrightarrow> splice1 (indexOf xs x) xs = remove1 x xs"
proof (induction xs)
  case Nil
  then show ?case by simp
next
  case (Cons y ys)
  show ?case
  proof (cases "y = x")
    case True
    then show ?thesis by (simp add: splice1_zero)
  next
    case False
    with Cons.prems have mem: "x \<in> set ys" by simp
    then have nn: "0 \<le> indexOf ys x" by (simp add: indexOf_nonneg_iff)
    with False mem Cons.IH show ?thesis
      by (simp add: Let_def splice1_Cons_Suc)
  qed
qed

lemma find_Some_mem: "find P xs = Some u \<Longrightarrow> u \<in> set xs \<and> P u"
  by (induction xs) (auto split: if_splits)

lemma removeUser_member:
  "t \<in> set (users r) \<Longrightarrow>
   removeUser t r = onUserRemoved (userId t) (r\<lparr>users := remove1 t (users r)\<rparr>)"
  by (simp add: removeUser_def find_eq_target splice1_indexOf)

lemma removeUser_nonmember: "t \<notin> set (users r) \<Longrightarrow> removeUser t r = (None, r, [])"
  by (simp add: removeUser_def find_eq_target)

lemma removeUserById_found:
  "find (\<lambda>u. userId u = uid) (users r) = Some u \<Longrightarrow>
   removeUserById uid r = onUserRemoved uid (r\<lparr>users := remove1 u (users r)\<rparr>)"
  by (simp add: removeUserById_def splice1_indexOf find_Some_mem)

lemma find_None_image: "k \<notin> f ` set xs \<Longrightarrow> find (\<lambda>u. f u = k) xs = None"
  by (induction xs) auto

lemma removeUserById_nonmember:
  assumes "uid \<notin> userId ` set (users r)"
  shows "removeUserById uid r = (None, r, [])"
proof -
  from assms have "find (\<lambda>u. userId u = uid) (users r) = None"
    by (rule find_None_image)
  then show ?thesis by (simp add: removeUserById_def)
qed

lemma onUserRemoved_empty:
  "users r = [] \<Longrightarrow> emptyRoomCallback r = Some cb \<Longrightarrow>
   onUserRemoved uid r = (None, r, [EmptyRoomCall cb r (parentChannel r)])"
  by (simp add: onUserRemoved_def)

lemma onUserRemoved_nonempty:
  "users r \<noteq> [] \<Longrightarrow>
   onUserRemoved uid r =
     (None, r\<lparr>host := hd (users r)\<rparr>,
      map (\<lambda>u. SocketWrite (socket u) (SetHost (hd (users r)))) (users r) @
      map (\<lambda>u. SocketWrite (socket u) (PlayerLeave uid)) (users r))"
  by (cases "users r")
     (simp_all add: onUserRemoved_def findAndUpdateNewHost_def updateHost_def
        sendRemovedUser_def Let_def)

lemma onUserRemoved_users: "users (fst (snd (onUserRemoved uid r))) = users r"
  by (cases "users r")
     (simp_all add: onUserRemoved_def findAndUpdateNewHost_def updateHost_def
        sendRemovedUser_def Let_def split: option.splits)

lemma onUserRemoved_maxPlayers: "maxPlayers (fst (snd (onUserRemoved uid r))) = maxPlayers r"
  by (cases "users r")
     (simp_all add: onUserRemoved_def findAndUpdateNewHost_def updateHost_def
        sendRemovedUser_def Let_def split: option.splits)

lemma show_int_7: "show_int 7 = ''7''"
  by (simp add: show_int_def digit_char_def)

lemma users_room_of_alice: "users room_of_alice = [alice]"
  by (simp add: room_of_alice_def Room_constructor_def addUser_def)

lemma users_room_of_two: "users room_of_two = [alice, bob]"
  by (simp add: room_of_two_def addUser_def users_room_of_alice)

lemma host_room_of_two: "host room_of_two = alice"
  by (simp add: room_of_two_def room_of_alice_def Room_constructor_def addUser_def)

lemma members_distinct:
  "alice \<noteq> bob" "alice \<noteq> carol" "bob \<noteq> carol"
  "bob \<noteq> alice" "carol \<noteq> alice" "carol \<noteq> bob"
  by (simp_all add: alice_def bob_def carol_def member_def)

lemma sample_fields:
  "userId alice = 1" "userId bob = 2" "userId carol = 3"
  "socket alice = 101" "socket bob = 102" "socket carol = 103"
  by (simp_all add: alice_def bob_def carol_def member_def)

lemma member_fields: "userId (member uid s) = uid" "socket (member uid s) = s"
  by (simp_all add: member_def)

lemma option_applied_num_or: "option_applied v d (num_or v d)"
  by (simp add: option_applied_def num_or_def split: option.splits)

lemma truthy_num_or: "truthy_num v \<longleftrightarrow> num_or v 0 \<noteq> 0"
  by (simp add: truthy_num_def num_or_def split: option.splits)

text \<open>
  Claim C4, amended.  For every options record passed to the constructor, each option
  that is unspecified takes its default (gameModeId 0, mapId 1, winLimit 10,
  killLimit 150, startMoney 16000, forceCamera 1, nextMapEnabled 0, changeTeams 0,
  enableBots 0, difficulty 0, respawnTime 3, teamBalance 0, weaponRestrictions 0,
  hltvEnabled 0); an option specified with a nonzero value is applied with that value;
  an option specified as \<open>0\<close> takes its default, like an unspecified one.
  \<open>maxPlayers\<close> is 16 when \<open>enableBots\<close> is nonzero and 32 otherwise.
  \<open>roomName\<close> is the given name when one is given and not empty, and
  \<open>'Room #' + roomId\<close> otherwise.
\<close>

theorem Room_constructor_options:
  "\<exists>r. Room_constructor roomId h parent cb (Some opts) = Inr r \<and>
       option_applied (gameModeId_opt opts) 0 (gameModeId r) \<and>
       option_applied (mapId_opt opts) 1 (mapId r) \<and>
       option_applied (winLimit_opt opts) 10 (winLimit r) \<and>
       option_applied (killLimit_opt opts) 150 (killLimit r) \<and>
       option_applied (startMoney_opt opts) 16000 (startMoney r) \<and>
       option_applied (forceCamera_opt opts) 1 (forceCamera r) \<and>
       option_applied (nextMapEnabled_opt opts) 0 (nextMapEnabled r) \<and>
       option_applied (changeTeams_opt opts) 0 (changeTeams r) \<and>
       option_applied (enableBots_opt opts) 0 (enableBots r) \<and>
       option_applied (difficulty_opt opts) 0 (difficulty r) \<and>
       option_applied (respawnTime_opt opts) 3 (respawnTime r) \<and>
       option_applied (teamBalance_opt opts) 0 (teamBalance r) \<and>
       option_applied (weaponRestrictions_opt opts) 0 (weaponRestrictions r) \<and>
       option_applied (hltvEnabled_opt opts) 0 (hltvEnabled r) \<and>
       maxPlayers r = (if enableBots r \<noteq> 0 then 16 else 32) \<and>
       roomName r =
         (case roomName_opt opts of
            None \<Rightarrow> ''Room #'' @ show_int roomId
          | Some s \<Rightarrow> if s = [] then ''Room #'' @ show_int roomId else s)"
  by (simp add: Room_constructor_def addUser_def option_applied_num_or truthy_num_or
      str_or_def split: option.splits)

text \<open>
  C4 at a concrete options record: \<open>mapId\<close> 5 and \<open>enableBots\<close> 1 given, the rest
  unspecified, room id 7.
\<close>

theorem Room_constructor_options_witness:
  "\<exists>r. Room_constructor 7 alice 0 None
          (Some (no_options\<lparr>mapId_opt := Some 5, enableBots_opt := Some 1\<rparr>)) = Inr r \<and>
       mapId r = 5 \<and> winLimit r = 10 \<and> forceCamera r = 1 \<and> enableBots r = 1 \<and>
       maxPlayers r = 16 \<and> roomName r = ''Room #7''"
  using Room_constructor_options
    [of 7 alice 0 None "no_options\<lparr>mapId_opt := Some 5, enableBots_opt := Some 1\<rparr>"]
  by (auto simp: option_applied_def no_options_def show_int_7)

text \<open>
  C4 as stated fails: \<open>forceCamera\<close> specified as \<open>0\<close> is not applied, the room gets
  the default \<open>1\<close>.
\<close>

theorem Room_constructor_zero_counterexample:
  "forceCamera_opt (no_options\<lparr>forceCamera_opt := Some 0\<rparr>) = Some 0 \<and>
   map_sum id forceCamera
     (Room_constructor 7 alice 0 None (Some (no_options\<lparr>forceCamera_opt := Some 0\<rparr>))) = Inr 1"
  by (simp add: Room_constructor_def addUser_def no_options_def num_or_def)

lemma remove1_keeps_head:
  "xs \<noteq> [] \<Longrightarrow> t \<noteq> xs ! 0 \<Longrightarrow> remove1 t xs ! 0 = xs ! 0"
  by (cases xs) auto

lemma host_elected_onUserRemoved:
  assumes "remove1 t (users r) \<noteq> []"
  shows "host_elected r t (onUserRemoved uid (r\<lparr>users := remove1 t (users r)\<rparr>))"
proof -
  let ?rem = "remove1 t (users r)"
  have hd0: "hd ?rem = ?rem ! 0"
    using assms by (simp add: hd_conv_nth)
  have ne: "users r \<noteq> []"
    using assms by auto
  have keep: "t \<noteq> users r ! 0 \<Longrightarrow> ?rem ! 0 = users r ! 0"
    using ne by (rule remove1_keeps_head)
  show ?thesis
    using assms keep
    by (auto simp: host_elected_def onUserRemoved_nonempty hd0)
qed

lemma leave_broadcast_onUserRemoved:
  assumes "remove1 t (users r) \<noteq> []"
  shows "leave_broadcast r t (onUserRemoved (userId t) (r\<lparr>users := remove1 t (users r)\<rparr>))"
  using assms by (auto simp: leave_broadcast_def onUserRemoved_nonempty)

text \<open>
  Claim C5, amended.  For every removal of a member (by \<open>removeUser\<close> or by
  \<open>removeUserById\<close>) that leaves the room non-empty, the host becomes the member at
  index 0 of the remaining ordered list and a \<open>setHost\<close> packet naming it is written
  to every remaining member, whether or not the removed user was the host.  When the
  removed user was not the host and the host was the member at index 0, the host is
  unchanged.
\<close>

theorem host_election_on_removal:
  "(t \<in> set (users r) \<and> remove1 t (users r) \<noteq> [] \<longrightarrow> host_elected r t (removeUser t r)) \<and>
   (find (\<lambda>u. userId u = uid) (users r) = Some t \<and> remove1 t (users r) \<noteq> [] \<longrightarrow>
      host_elected r t (removeUserById uid r))"
  by (simp add: removeUser_member removeUserById_found host_elected_onUserRemoved)

text \<open>
  C5 at a concrete room: Alice (host) and Bob; Alice is removed and Bob becomes host.
\<close>

theorem host_election_on_removal_witness:
  "alice \<in> set (users room_of_two) \<and> remove1 alice (users room_of_two) \<noteq> [] \<and>
   find (\<lambda>u. userId u = 1) (users room_of_two) = Some alice \<and>
   host_elected room_of_two alice (removeUser alice room_of_two) \<and>
   host_elected room_of_two alice (removeUserById 1 room_of_two) \<and>
   host (fst (snd (removeUser alice room_of_two))) = bob"
  using host_election_on_removal [of alice room_of_two 1]
  by (auto simp: users_room_of_two members_distinct host_elected_def sample_fields)

text \<open>
  C5 as stated fails: Bob, who is not the host, is removed from the room of Alice and
  Bob, and a \<open>setHost\<close> packet is still written to Alice's socket.
\<close>

theorem setHost_sent_for_non_host_counterexample:
  "bob \<noteq> host room_of_two \<and>
   snd (snd (removeUser bob room_of_two)) =
     [SocketWrite 101 (SetHost alice), SocketWrite 101 (PlayerLeave 2)]"
  by (simp add: removeUser_member onUserRemoved_nonempty users_room_of_two host_room_of_two
      members_distinct sample_fields)

text \<open>
  Claim C7, amended.  A \<open>removeUser\<close> call that removes the last member of a room
  that has an empty-room callback registered invokes that callback with the room and
  its parent channel, and nothing else happens: no \<open>playerLeave\<close> is written.  A
  \<open>removeUser\<close> call that removes a member and leaves the room non-empty writes
  \<open>playerLeave\<close> with the removed user's id to every remaining member, and does not
  invoke the callback.
\<close>

theorem removal_callback_or_leave:
  "(t \<in> set (users r) \<and> remove1 t (users r) = [] \<and> emptyRoomCallback r = Some cb \<longrightarrow>
      removeUser t r =
        (None, r\<lparr>users := []\<rparr>, [EmptyRoomCall cb (r\<lparr>users := []\<rparr>) (parentChannel r)])) \<and>
   (t \<in> set (users r) \<and> remove1 t (users r) \<noteq> [] \<longrightarrow> leave_broadcast r t (removeUser t r))"
  by (simp add: removeUser_member onUserRemoved_empty leave_broadcast_onUserRemoved)

text \<open>
  C7 at concrete rooms: Alice leaves the room she is alone in; Bob leaves the room of
  Alice and Bob.
\<close>

theorem removal_callback_or_leave_witness:
  "alice \<in> set (users room_of_alice) \<and> remove1 alice (users room_of_alice) = [] \<and>
   emptyRoomCallback room_of_alice = Some 9 \<and>
   removeUser alice room_of_alice =
     (None, room_of_alice\<lparr>users := []\<rparr>, [EmptyRoomCall 9 (room_of_alice\<lparr>users := []\<rparr>) 7]) \<and>
   bob \<in> set (users room_of_two) \<and> remove1 bob (users room_of_two) \<noteq> [] \<and>
   leave_broadcast room_of_two bob (removeUser bob room_of_two) \<and>
   SocketWrite 101 (PlayerLeave 2) \<in> set (snd (snd (removeUser bob room_of_two)))"
  using removal_callback_or_leave [of alice room_of_alice 9]
    removal_callback_or_leave [of bob room_of_two 9]
  by (auto simp: users_room_of_alice users_room_of_two members_distinct leave_broadcast_def
      sample_fields room_of_alice_def Room_constructor_def addUser_def)

text \<open>
  C7 as stated fails: the constructor accepts a room without an empty-room callback
  (the parameter is optional); when Alice, its only member, is removed, the member list
  is emptied, the call of the absent callback throws, and nothing is invoked or written.
\<close>

theorem last_member_without_callback_counterexample:
  "Room_constructor 1 alice 7 None (Some no_options) = Inr room_without_callback \<and>
   users room_without_callback = [alice] \<and>
   emptyRoomCallback room_without_callback = None \<and>
   removeUser alice room_without_callback =
     (Some TypeError, room_without_callback\<lparr>users := []\<rparr>, [])"
  by (simp add: room_without_callback_def Room_constructor_def addUser_def removeUser_def
      onUserRemoved_def splice1_def)

text \<open>
  Claim C6.  The slot bound \<open>0 \<le> users.length \<le> maxPlayers\<close> holds after
  construction, is kept by \<open>addUser\<close> under its precondition \<open>hasFreeSlots()\<close>, and is
  kept by \<open>removeUser\<close> and \<open>removeUserById\<close>.
\<close>

theorem slot_bound_preserved:
  "(Room_constructor roomId h parent cb (Some opts) = Inr r0 \<longrightarrow> slot_bound r0) \<and>
   (hasFreeSlots r \<longrightarrow> slot_bound (addUser u r)) \<and>
   (slot_bound r \<longrightarrow> slot_bound (fst (snd (removeUser t r)))) \<and>
   (slot_bound r \<longrightarrow> slot_bound (fst (snd (removeUserById uid r))))"
proof (intro conjI impI)
  assume "Room_constructor roomId h parent cb (Some opts) = Inr r0"
  then show "slot_bound r0"
    by (auto simp: Room_constructor_def addUser_def slot_bound_def)
next
  assume "hasFreeSlots r"
  then show "slot_bound (addUser u r)"
    by (auto simp: slot_bound_def hasFreeSlots_def getFreeSlots_def addUser_def Let_def
        split: if_splits)
next
  assume sb: "slot_bound r"
  show "slot_bound (fst (snd (removeUser t r)))"
  proof (cases "t \<in> set (users r)")
    case True
    have "length (remove1 t (users r)) \<le> length (users r)"
      by (simp add: length_remove1)
    with sb True show ?thesis
      by (simp add: removeUser_member slot_bound_def onUserRemoved_users
          onUserRemoved_maxPlayers)
  next
    case False
    with sb show ?thesis by (simp add: removeUser_nonmember)
  qed
next
  assume sb: "slot_bound r"
  show "slot_bound (fst (snd (removeUserById uid r)))"
  proof (cases "find (\<lambda>u. userId u = uid) (users r)")
    case None
    with sb show ?thesis by (simp add: removeUserById_def)
  next
    case (Some v)
    have "length (remove1 v (users r)) \<le> length (users r)"
      by (simp add: length_remove1)
    with sb Some show ?thesis
      by (simp add: removeUserById_found slot_bound_def onUserRemoved_users
          onUserRemoved_maxPlayers)
  qed
qed

text \<open>
  C6 at a concrete room: the room Alice creates, Bob joining it, Alice leaving it.
\<close>

theorem slot_bound_preserved_witness:
  "Room_constructor 1 alice 7 (Some 9) (Some no_options) = Inr room_of_alice \<and>
   slot_bound room_of_alice \<and> hasFreeSlots room_of_alice \<and>
   slot_bound (addUser bob room_of_alice) \<and>
   slot_bound (fst (snd (removeUser alice room_of_alice))) \<and>
   slot_bound (fst (snd (removeUserById 1 room_of_alice)))"
  using slot_bound_preserved [of 1 alice 7 "Some 9" no_options room_of_alice room_of_alice bob alice 1]
  by (auto simp: room_of_alice_def Room_constructor_def addUser_def hasFreeSlots_def
      getFreeSlots_def no_options_def truthy_num_def)

text \<open>
  Claim C10.  \<open>removeUser\<close> with a user that is not a member, and \<open>removeUserById\<close>
  with an id that no member has, leave the room as it is (members and host included),
  do not invoke the empty-room callback and write to no socket.
\<close>

theorem removal_of_non_member:
  "(t \<notin> set (users r) \<longrightarrow> removeUser t r = (None, r, [])) \<and>
   (uid \<notin> userId ` set (users r) \<longrightarrow> removeUserById uid r = (None, r, []))"
  by (simp add: removeUser_nonmember removeUserById_nonmember)

text \<open>
  C10 at a concrete room: Carol is not in the room of Alice and Bob.
\<close>

theorem removal_of_non_member_witness:
  "carol \<notin> set (users room_of_two) \<and> removeUser carol room_of_two = (None, room_of_two, []) \<and>
   3 \<notin> userId ` set (users room_of_two) \<and> removeUserById 3 room_of_two = (None, room_of_two, [])"
  using removal_of_non_member [of carol room_of_two 3]
  by (auto simp: users_room_of_two members_distinct sample_fields)

section \<open>User service: reads and credentials\<close>

text \<open>
  Claim C8, amended.  Whenever the user service is known down, \<open>User.get(userId)\<close>
  returns what the user cache holds for that id (the cached user, or absent when there
  is none) and \<open>User.getByName(userName)\<close> returns absent; neither contacts the user
  service, and the cache is left as it is.
\<close>

theorem reads_when_service_down:
  "isAlive svc = False \<Longrightarrow>
   User_get svc cache uid = (cache uid, cache, []) \<and> User_getByName svc name = (None, [])"
  by (simp add: User_get_def User_getByName_def split: option.splits)

text \<open>
  C8 with the service down and user 42 cached: the read of 42 is served from the cache,
  the read of 7 and the read by name are absent.
\<close>

theorem reads_when_service_down_witness:
  "isAlive svc_down = False \<and>
   User_get svc_down [42 \<mapsto> user42] 42 = (Some user42, [42 \<mapsto> user42], []) \<and>
   User_get svc_down [42 \<mapsto> user42] 7 = (None, [42 \<mapsto> user42], []) \<and>
   User_getByName svc_down ''alice'' = (None, [])"
  using reads_when_service_down [of svc_down "[42 \<mapsto> user42]" 42 "''alice''"]
    reads_when_service_down [of svc_down "[42 \<mapsto> user42]" 7 "''alice''"]
  by (simp add: svc_down_def svc_up_def)

text \<open>
  C8 as stated fails: with the service down, \<open>User.get(42)\<close> still returns the user
  when the cache holds it.
\<close>

theorem cached_user_returned_when_down_counterexample:
  "isAlive svc_down = False \<and> fst (User_get svc_down [42 \<mapsto> user42] 42) = Some user42"
  by (simp add: User_get_def svc_down_def svc_up_def)

text \<open>
  Claim C9.  \<open>validateCredentials\<close> returns the \<open>userId\<close> of the body on a response
  with status 200, returns 0 on a response with any other status, and on a request
  error returns 0 after \<open>UserSvcPing.checkNow()\<close>.
\<close>

theorem validateCredentials_result:
  "(post_users_check svc n p = Response 200 body \<longrightarrow>
      validateCredentials svc n p = (body, [UserSvc (PostCheck n p)])) \<and>
   (post_users_check svc n p = Response st body \<and> st \<noteq> 200 \<longrightarrow>
      fst (validateCredentials svc n p) = Some 0) \<and>
   (post_users_check svc n p = RequestError \<longrightarrow>
      validateCredentials svc n p = (Some 0, [UserSvc (PostCheck n p), CheckNow]))"
  by (simp add: validateCredentials_def)

text \<open>
  C9 at three concrete requests: good credentials (200 with id 42), bad credentials
  (401), and a request that fails.
\<close>

theorem validateCredentials_result_witness:
  "post_users_check svc_up ''alice'' ''pw'' = Response 200 (Some 42) \<and>
   validateCredentials svc_up ''alice'' ''pw'' = (Some 42, [UserSvc (PostCheck ''alice'' ''pw'')]) \<and>
   post_users_check svc_up ''alice'' ''bad'' = Response 401 None \<and>
   fst (validateCredentials svc_up ''alice'' ''bad'') = Some 0 \<and>
   post_users_check svc_up ''bob'' ''pw'' = RequestError \<and>
   validateCredentials svc_up ''bob'' ''pw'' =
     (Some 0, [UserSvc (PostCheck ''bob'' ''pw''), CheckNow])"
  using validateCredentials_result [of svc_up "''alice''" "''pw''" "Some 42" 401 ]
    validateCredentials_result [of svc_up "''alice''" "''bad''" None 401]
    validateCredentials_result [of svc_up "''bob''" "''pw''" None 401]
  by (simp add: svc_up_def)

section \<open>User manager: host packets\<close>

text \<open>
  Claim C1, evaluated at a failing input.  Alice (id 1, items \<open>[10]\<close>) hosts the room
  of Alice and Bob and sends \<open>Host.SetInventory\<close> for Bob (id 2, items \<open>[20]\<close>).  The
  handler accepts, reads the inventory of user 1 and sends Alice's own items under
  Bob's id.
\<close>

theorem host_inventory_relay_reads_host_inventory:
  "onHostSetUserInventory lobby 2 (conn_of 101 (Some 1)) =
     (Inr True, [InvFetch (GetInventory 1), Send 101 (HostSetInventory 2 [10])]) \<and>
   getInventory (invSvc lobby) 2 = Some \<lparr>items = [20]\<rparr>"
  by (simp add: onHostSetUserInventory_def lobby_def UserSession_get_def conn_of_def
      session_of_def isInRoom_def getSessionCurRoom_def host_room_of_two sample_fields
      sendUserInventoryTo_def inv_all_def)

lemma fetches_sendUserInventoryTo:
  "fetches (snd (sendUserInventoryTo isvc h c t)) \<noteq> []"
  by (simp add: sendUserInventoryTo_def split: option.splits)

lemma guarded_inventory: "guarded w conn t False (onHostSetUserInventory w t conn)"
proof (cases "sendUserInventoryTo (invSvc w)
    (userId_sess (the (UserSession_get w (owner conn)))) conn
    (userId_sess (the (UserSession_get w (Some t))))")
  case (Pair e effs)
  have "fetches effs \<noteq> []"
    using fetches_sendUserInventoryTo [of "invSvc w"
        "userId_sess (the (UserSession_get w (owner conn)))" conn
        "userId_sess (the (UserSession_get w (Some t)))"] Pair by simp
  with Pair show ?thesis
    by (auto simp: guarded_def host_chain_def room_lost_def onHostSetUserInventory_def
        Let_def split: option.splits)
qed

lemma guarded_loadout: "guarded w conn t True (onHostSetUserLoadout w t conn)"
  by (auto simp: guarded_def host_chain_def room_lost_def onHostSetUserLoadout_def
      sendUserLoadoutTo_def Let_def split: option.splits)

lemma guarded_buymenu: "guarded w conn t False (onHostSetUserBuyMenu w t conn)"
  by (auto simp: guarded_def host_chain_def room_lost_def onHostSetUserBuyMenu_def
      sendUserBuyMenuTo_def Let_def split: option.splits)

text \<open>
  Claim C2, amended.  For every incoming \<open>Host.SetInventory\<close>, \<open>Host.SetLoadout\<close> or
  \<open>Host.SetBuyMenu\<close> packet, the inventory service is read exactly when the requester
  has a session, the requester is in a room, the target user has a session, the
  requester's room is found and the requester is its host; whether the target is a
  member of that room is not checked.  When one of these fails nothing is read and
  nothing is sent, and the handler returns failure (unless the room the requester's
  session names cannot be found).  In particular a non-host's packet never triggers a
  read of the inventory service.
\<close>

theorem host_packets_guarded:
  "guarded w conn t False (onHostSetUserInventory w t conn) \<and>
   guarded w conn t True (onHostSetUserLoadout w t conn) \<and>
   guarded w conn t False (onHostSetUserBuyMenu w t conn)"
  by (simp add: guarded_inventory guarded_loadout guarded_buymenu)

lemma lobby_sessions:
  "UserSession_get lobby (Some 1) = Some (session_of 1 5)"
  "UserSession_get lobby (Some 2) = Some (session_of 2 5)"
  "UserSession_get lobby (Some 3) = Some (session_of 3 0)"
  by (simp_all add: UserSession_get_def lobby_def)

lemma lobby_room: "getSessionCurRoom lobby (session_of u 5) = Some room_of_two"
  by (simp add: getSessionCurRoom_def lobby_def session_of_def)

lemma lobby_invSvc: "invSvc lobby = inv_all"
  by (simp add: lobby_def)

lemma session_of_fields:
  "userId_sess (session_of u r) = u" "isInRoom (session_of u r) = (r \<noteq> 0)"
  by (simp_all add: session_of_def isInRoom_def)

lemma conn_of_fields: "uuid (conn_of c o_id) = c" "owner (conn_of c o_id) = o_id"
  by (simp_all add: conn_of_def)

text \<open>
  C2 at concrete packets: Bob (id 2), a member but not the host of the room of Alice
  and Bob, sends each of the three packets for Alice; each is dropped with nothing read
  and the handler returns \<open>false\<close>.  Alice, the host, sends \<open>Host.SetLoadout\<close> for Bob;
  the loadouts of Bob are read.
\<close>

theorem host_packets_guarded_witness:
  "\<not> host_chain lobby (conn_of 102 (Some 2)) 1 False \<and>
   \<not> host_chain lobby (conn_of 102 (Some 2)) 1 True \<and>
   \<not> room_lost lobby (conn_of 102 (Some 2)) 1 \<and>
   onHostSetUserInventory lobby 1 (conn_of 102 (Some 2)) = (Inr False, []) \<and>
   onHostSetUserLoadout lobby 1 (conn_of 102 (Some 2)) = (Inr False, []) \<and>
   onHostSetUserBuyMenu lobby 1 (conn_of 102 (Some 2)) = (Inr False, []) \<and>
   host_chain lobby (conn_of 101 (Some 1)) 2 True \<and>
   fetches (snd (onHostSetUserLoadout lobby 2 (conn_of 101 (Some 1)))) \<noteq> []"
  using host_packets_guarded [of lobby "conn_of 102 (Some 2)" 1]
    host_packets_guarded [of lobby "conn_of 101 (Some 1)" 2]
  by (simp add: guarded_def host_chain_def room_lost_def lobby_sessions lobby_room
      session_of_fields conn_of_fields host_room_of_two sample_fields prod_eq_iff)

text \<open>
  C2 as stated fails: Carol (id 3) has a session but is not a member of the room of
  Alice and Bob; Alice, the host, sends \<open>Host.SetLoadout\<close> for Carol and the loadouts
  of Carol are read and delivered.
\<close>

theorem target_outside_room_counterexample:
  "3 \<notin> userId ` set (users room_of_two) \<and>
   getSessionCurRoom lobby (session_of 1 5) = Some room_of_two \<and>
   onHostSetUserLoadout lobby 3 (conn_of 101 (Some 1)) =
     (Inr True, [InvFetch (GetAllLoadouts 3), Send 101 (HostSetLoadout 3 (Some [[3, 5]]))])"
  by (simp add: onHostSetUserLoadout_def lobby_sessions lobby_room session_of_fields
      conn_of_fields host_room_of_two sample_fields users_room_of_two sendUserLoadoutTo_def
      lobby_invSvc inv_all_def)

section \<open>User manager: login\<close>

lemma sent_on_append: "sent_on c (xs @ ys) = sent_on c xs @ sent_on c ys"
  by (simp add: sent_on_def)

lemma sent_on_simps:
  "sent_on c [] = []"
  "sent_on c (Send c q # xs) = Send c q # sent_on c xs"
  "sent_on c (SessionUpdate s # xs) = sent_on c xs"
  "sent_on c (SetOwner k i # xs) = sent_on c xs"
  by (simp_all add: sent_on_def)

lemma sent_on_validateCredentials: "sent_on c (snd (validateCredentials svc n p)) = []"
  by (simp add: validateCredentials_def sent_on_def split: http_result.splits)

lemma sent_on_User_get: "sent_on c (snd (snd (User_get svc cache uid))) = []"
  by (simp add: User_get_def sent_on_def split: option.splits http_result.splits)

lemma sent_on_inventory_started: "sent_on c (fst (sendInventory isvc uid conn)) = []"
  by (simp add: sendInventory_def sent_on_def)

lemma sent_on_inventory_resumed:
  "sent_on (uuid conn) (snd (sendInventory isvc uid conn)) = snd (sendInventory isvc uid conn)"
  by (simp add: sendInventory_def sent_on_def split: option.splits)

lemma UserSession_create_success:
  assumes "validateCredentials svc n p = (Some uid, e0)" and "uid \<noteq> 0"
  shows "UserSession_create svc n p =
           (Some \<lparr> userId_sess = uid, userName_sess = n, ipAddress = [],
                    currentChannelIndex = 0, currentChannelServerIndex = 0,
                    currentRoomId = 0 \<rparr>, e0)"
  using assms by (simp add: UserSession_create_def)

text \<open>What a successful login puts on the connection, for either order of resumption.\<close>

lemma login_sent:
  assumes "validateCredentials (userSvc w) (gameUsername p) (password p) = (Some uid, e0)"
    and "uid \<noteq> 0"
    and "User_get (userSvc w) (userCache w) uid = (Some u, cache', e2)"
  shows "fst (onLoginPacket w p conn port infoFirst) = True"
    and "sent_on (uuid conn) (snd (snd (onLoginPacket w p conn port infoFirst))) =
           Send (uuid conn) (UserStart uid (userName u) (playerName u) port) #
           Send (uuid conn) ChannelList #
           (if infoFirst
            then Send (uuid conn) (UserInfoFull uid) # snd (sendInventory (invSvc w) uid conn)
            else snd (sendInventory (invSvc w) uid conn) @ [Send (uuid conn) (UserInfoFull uid)])"
proof -
  have v: "sent_on (uuid conn) e0 = []"
    using sent_on_validateCredentials [of "uuid conn" "userSvc w" "gameUsername p" "password p"]
      assms(1) by simp
  have g: "sent_on (uuid conn) e2 = []"
    using sent_on_User_get [of "uuid conn" "userSvc w" "userCache w" uid] assms(3) by simp
  obtain now later where inv: "sendInventory (invSvc w) uid conn = (now, later)"
    by (cases "sendInventory (invSvc w) uid conn")
  have n: "sent_on (uuid conn) now = []"
    using sent_on_inventory_started [of "uuid conn" "invSvc w" uid conn] inv by simp
  have l: "sent_on (uuid conn) later = later"
    using sent_on_inventory_resumed [of conn "invSvc w" uid] inv by simp
  have run: "onLoginPacket w p conn port infoFirst =
      (True, cache',
       e0 @ [SessionUpdate \<lparr> userId_sess = uid, userName_sess = gameUsername p,
                              ipAddress = address conn, currentChannelIndex = 0,
                              currentChannelServerIndex = 0, currentRoomId = 0 \<rparr>,
             SetOwner (uuid conn) uid] @ e2 @
       [Send (uuid conn) (UserStart uid (userName u) (playerName u) port)] @ now @
       [Send (uuid conn) ChannelList] @
       (if infoFirst then [Send (uuid conn) (UserInfoFull uid)] @ later
        else later @ [Send (uuid conn) (UserInfoFull uid)]))"
    using assms(3) inv
    by (simp add: onLoginPacket_def UserSession_create_success [OF assms(1,2)]
        sendUserInfoTo_def sendChannelListTo_def Let_def)
  show "fst (onLoginPacket w p conn port infoFirst) = True"
    by (simp add: run)
  have "sent_on (uuid conn) (snd (snd (onLoginPacket w p conn port infoFirst))) =
      Send (uuid conn) (UserStart uid (userName u) (playerName u) port) #
      Send (uuid conn) ChannelList #
      (if infoFirst then Send (uuid conn) (UserInfoFull uid) # later
       else later @ [Send (uuid conn) (UserInfoFull uid)])"
    by (simp add: run sent_on_append v g n l sent_on_simps)
  then show "sent_on (uuid conn) (snd (snd (onLoginPacket w p conn port infoFirst))) =
           Send (uuid conn) (UserStart uid (userName u) (playerName u) port) #
           Send (uuid conn) ChannelList #
           (if infoFirst
            then Send (uuid conn) (UserInfoFull uid) # snd (sendInventory (invSvc w) uid conn)
            else snd (sendInventory (invSvc w) uid conn) @ [Send (uuid conn) (UserInfoFull uid)])"
    by (simp add: inv)
qed

lemma inventory_block_present:
  assumes "getInventory isvc uid = Some i" and "getCosmetics isvc uid = Some c"
    and "getAllLoadouts isvc uid = Some l" and "getBuyMenu isvc uid = Some b"
  shows "snd (sendInventory isvc uid conn) = inventory_frames (uuid conn) i c l b"
  using assms by (simp add: sendInventory_def inventory_frames_def)

lemma inventory_block_absent:
  assumes "getInventory isvc uid = None \<or> getCosmetics isvc uid = None \<or>
           getAllLoadouts isvc uid = None \<or> getBuyMenu isvc uid = None"
  shows "snd (sendInventory isvc uid conn) = []"
  using assms by (auto simp: sendInventory_def split: option.splits)

text \<open>
  Claim C3, amended.  After a successful login (\<open>validateCredentials\<close> returns a
  nonzero user id and the user record is fetched) the handler returns \<open>true\<close> and
  \<open>UserStart\<close> is the first thing sent on the connection.  Besides it, the full user
  update and the channel list are each sent once.  When the inventory service returns
  all four projections, the inventory is sent as one uninterrupted run: items, the
  unlock buffer, cosmetics, loadouts, option-buy-menu, in this order.  When one of the
  projections is absent, nothing of the inventory is sent.
\<close>

theorem login_send_order:
  assumes "validateCredentials (userSvc w) (gameUsername p) (password p) = (Some uid, e0)"
    and "uid \<noteq> 0"
    and "User_get (userSvc w) (userCache w) uid = (Some u, cache', e2)"
  shows "login_outcome w uid u conn port (onLoginPacket w p conn port infoFirst)"
proof -
  let ?c = "uuid conn"
  let ?sent = "sent_on ?c (snd (snd (onLoginPacket w p conn port infoFirst)))"
  let ?start = "Send ?c (UserStart uid (userName u) (playerName u) port)"
  let ?info = "Send ?c (UserInfoFull uid)"
  let ?chan = "Send ?c ChannelList"
  let ?block = "snd (sendInventory (invSvc w) uid conn)"
  have ok: "fst (onLoginPacket w p conn port infoFirst) = True"
    using assms by (rule login_sent(1))
  have sent: "?sent = ?start # ?chan # (if infoFirst then ?info # ?block else ?block @ [?info])"
    using assms by (rule login_sent(2))
  have first: "\<exists>rest. ?sent = ?start # rest"
    using sent by simp
  have framed: "\<exists>pre post. ?sent = pre @ ?block @ post \<and> around_inventory ?c uid u port (pre @ post)"
  proof (cases infoFirst)
    case True
    then have "?sent = [?start, ?chan, ?info] @ ?block @ []"
      using sent by simp
    moreover have "around_inventory ?c uid u port ([?start, ?chan, ?info] @ [])"
      by (auto simp: around_inventory_def)
    ultimately show ?thesis by blast
  next
    case False
    then have "?sent = [?start, ?chan] @ ?block @ [?info]"
      using sent by simp
    moreover have "around_inventory ?c uid u port ([?start, ?chan] @ [?info])"
      by (auto simp: around_inventory_def)
    ultimately show ?thesis by blast
  qed
  have present: "\<And>i c l b. getInventory (invSvc w) uid = Some i \<Longrightarrow>
      getCosmetics (invSvc w) uid = Some c \<Longrightarrow> getAllLoadouts (invSvc w) uid = Some l \<Longrightarrow>
      getBuyMenu (invSvc w) uid = Some b \<Longrightarrow>
      \<exists>pre post. ?sent = pre @ inventory_frames ?c i c l b @ post \<and>
        around_inventory ?c uid u port (pre @ post)"
    using framed by (simp add: inventory_block_present)
  have absent: "getInventory (invSvc w) uid = None \<or> getCosmetics (invSvc w) uid = None \<or>
      getAllLoadouts (invSvc w) uid = None \<or> getBuyMenu (invSvc w) uid = None \<Longrightarrow>
      around_inventory ?c uid u port ?sent"
    using framed by (auto simp: inventory_block_absent)
  show ?thesis
    unfolding login_outcome_def case_prod_beta using ok first present absent
    by blast
qed

lemma lobby_login_facts:
  "validateCredentials (userSvc lobby) (gameUsername login_alice) (password login_alice) =
     (Some 42, [UserSvc (PostCheck ''alice'' ''pw'')])"
  "User_get (userSvc lobby) (userCache lobby) 42 =
     (Some user42, [42 \<mapsto> user42], [UserSvc (GetUser 42)])"
  by (simp_all add: lobby_def svc_up_def login_alice_def validateCredentials_def User_get_def
      user42_def)

lemma no_buymenu_login_facts:
  "validateCredentials (userSvc (lobby\<lparr>invSvc := inv_no_buymenu\<rparr>)) (gameUsername login_alice)
     (password login_alice) = (Some 42, [UserSvc (PostCheck ''alice'' ''pw'')])"
  "User_get (userSvc (lobby\<lparr>invSvc := inv_no_buymenu\<rparr>))
     (userCache (lobby\<lparr>invSvc := inv_no_buymenu\<rparr>)) 42 =
     (Some user42, [42 \<mapsto> user42], [UserSvc (GetUser 42)])"
  using lobby_login_facts by simp_all

text \<open>
  C3 at a concrete login: Alice logs in with good credentials on connection 7, the
  inventory service returns all four projections; both orders of resumption.
\<close>

theorem login_send_order_witness:
  "validateCredentials (userSvc lobby) (gameUsername login_alice) (password login_alice) =
     (Some 42, [UserSvc (PostCheck ''alice'' ''pw'')]) \<and>
   (42 :: int) \<noteq> 0 \<and>
   User_get (userSvc lobby) (userCache lobby) 42 =
     (Some user42, [42 \<mapsto> user42], [UserSvc (GetUser 42)]) \<and>
   login_outcome lobby 42 user42 (conn_of 7 None) 30002
     (onLoginPacket lobby login_alice (conn_of 7 None) 30002 True) \<and>
   login_outcome lobby 42 user42 (conn_of 7 None) 30002
     (onLoginPacket lobby login_alice (conn_of 7 None) 30002 False)"
  using login_send_order [OF lobby_login_facts(1) _ lobby_login_facts(2),
      of "conn_of 7 None" 30002 True]
    login_send_order [OF lobby_login_facts(1) _ lobby_login_facts(2),
      of "conn_of 7 None" 30002 False]
  by (simp add: lobby_login_facts)

text \<open>
  C3 as stated fails.  Alice logs in with good credentials on connection 7.  When the
  inventory service has no buy menu for her, the login succeeds with three packets on
  the connection, none of them of the inventory, for either order of resumption.  When
  the inventory service has all four projections, the channel list goes out second,
  before the inventory, and the unlock buffer goes out between items and cosmetics.
\<close>

theorem login_without_buymenu_counterexample:
  "getBuyMenu inv_no_buymenu 42 = None \<and>
   fst (onLoginPacket (lobby\<lparr>invSvc := inv_no_buymenu\<rparr>) login_alice (conn_of 7 None) 30002 True)
     = True \<and>
   set (sent_on 7 (snd (snd (onLoginPacket (lobby\<lparr>invSvc := inv_no_buymenu\<rparr>) login_alice
          (conn_of 7 None) 30002 True)))) =
     {Send 7 (UserStart 42 ''alice'' ''playerAlice'' 30002), Send 7 (UserInfoFull 42),
      Send 7 ChannelList} \<and>
   set (sent_on 7 (snd (snd (onLoginPacket (lobby\<lparr>invSvc := inv_no_buymenu\<rparr>) login_alice
          (conn_of 7 None) 30002 False)))) =
     {Send 7 (UserStart 42 ''alice'' ''playerAlice'' 30002), Send 7 (UserInfoFull 42),
      Send 7 ChannelList} \<and>
   sent_on 7 (snd (snd (onLoginPacket lobby login_alice (conn_of 7 None) 30002 True))) =
     [Send 7 (UserStart 42 ''alice'' ''playerAlice'' 30002), Send 7 ChannelList,
      Send 7 (UserInfoFull 42), Send 7 (InventoryCreate [420]), SendBuffer 7 unlockReply,
      Send 7 (FavoriteSetCosmetics 1 2 3 4 5 6 7 8), Send 7 (FavoriteSetLoadout [[42, 5]]),
      Send 7 (OptionSetBuyMenu [42, 9])]"
proof -
  have none: "getBuyMenu inv_no_buymenu 42 = None"
    by (simp add: inv_no_buymenu_def)
  then have block: "snd (sendInventory inv_no_buymenu 42 (conn_of 7 None)) = []"
    by (simp add: inventory_block_absent)
  have ok: "fst (onLoginPacket (lobby\<lparr>invSvc := inv_no_buymenu\<rparr>) login_alice (conn_of 7 None)
      30002 True) = True"
    by (rule login_sent(1) [OF no_buymenu_login_facts(1) _ no_buymenu_login_facts(2)]) simp
  have sent: "sent_on 7 (snd (snd (onLoginPacket (lobby\<lparr>invSvc := inv_no_buymenu\<rparr>) login_alice
      (conn_of 7 None) 30002 b))) =
      [Send 7 (UserStart 42 ''alice'' ''playerAlice'' 30002), Send 7 ChannelList,
       Send 7 (UserInfoFull 42)]" for b
    using login_sent(2) [OF no_buymenu_login_facts(1) _ no_buymenu_login_facts(2),
        of "conn_of 7 None" 30002 b]
    by (simp add: block conn_of_fields user42_def)
  have full: "snd (sendInventory inv_all 42 (conn_of 7 None)) =
      [Send 7 (InventoryCreate [420]), SendBuffer 7 unlockReply,
       Send 7 (FavoriteSetCosmetics 1 2 3 4 5 6 7 8), Send 7 (FavoriteSetLoadout [[42, 5]]),
       Send 7 (OptionSetBuyMenu [42, 9])]"
    by (simp add: sendInventory_def inv_all_def conn_of_fields)
  have sent_full: "sent_on 7 (snd (snd (onLoginPacket lobby login_alice (conn_of 7 None)
      30002 True))) =
      [Send 7 (UserStart 42 ''alice'' ''playerAlice'' 30002), Send 7 ChannelList,
       Send 7 (UserInfoFull 42), Send 7 (InventoryCreate [420]), SendBuffer 7 unlockReply,
       Send 7 (FavoriteSetCosmetics 1 2 3 4 5 6 7 8), Send 7 (FavoriteSetLoadout [[42, 5]]),
       Send 7 (OptionSetBuyMenu [42, 9])]"
    using login_sent(2) [OF lobby_login_facts(1) _ lobby_login_facts(2),
        of "conn_of 7 None" 30002 True]
    by (simp add: full lobby_invSvc conn_of_fields user42_def)
  show ?thesis
    using none ok sent_full by (auto simp: sent)
qed

end
